theory Spec2Isabelle
  imports Main
begin

section \<open>Python strings\<close>

text \<open>
  A Python \<open>str\<close> is modelled as a \<^typ>\<open>string\<close>: a list of characters whose code points
  lie below 256. On that range \<open>str.lower\<close>, \<open>str.isspace\<close> and \<open>str.strip\<close> are the
  functions below (the upper-case letters are A-Z and the Latin-1 capitals 192-222 without
  the multiplication sign 215; the white space is 9-13, 28-32, 133 and 160).
\<close>

definition nl :: string where
  "nl = [CHR 0x0A]"

definition py_isspace :: "char \<Rightarrow> bool" where
  "py_isspace c =
     (let n = (of_char c :: nat)
      in (9 \<le> n \<and> n \<le> 13) \<or> (28 \<le> n \<and> n \<le> 32) \<or> n = 133 \<or> n = 160)"

definition py_isdecimal :: "char \<Rightarrow> bool" where
  "py_isdecimal c = (let n = (of_char c :: nat) in 48 \<le> n \<and> n \<le> 57)"

definition lower_char :: "char \<Rightarrow> char" where
  "lower_char c =
     (let n = (of_char c :: nat)
      in if (65 \<le> n \<and> n \<le> 90) \<or> (192 \<le> n \<and> n \<le> 222 \<and> n \<noteq> 215)
         then char_of (n + 32) else c)"

definition lower :: "string \<Rightarrow> string" where
  "lower s = map lower_char s"

definition strip :: "string \<Rightarrow> string" where
  "strip s = rev (dropWhile py_isspace (rev (dropWhile py_isspace s)))"

text \<open>\<open>sub in s\<close> on strings: \<open>sub\<close> occurs in \<open>s\<close> as a contiguous run.\<close>

definition contains :: "string \<Rightarrow> string \<Rightarrow> bool" where
  "contains s sub = list_ex (\<lambda>i. take (length sub) (drop i s) = sub) [0..<Suc (length s)]"

text \<open>\<open>sep.join(parts)\<close>.\<close>

fun join :: "string \<Rightarrow> string list \<Rightarrow> string" where
  "join sep [] = []"
| "join sep [p] = p"
| "join sep (p # q # ps) = p @ sep @ join sep (q # ps)"

text \<open>\<open>xs[i:]\<close>: a negative start counts from the end, and the start is clamped to the list.\<close>

definition slice_from :: "int \<Rightarrow> 'a list \<Rightarrow> 'a list" where
  "slice_from i xs =
     (if i < 0 then drop (nat (int (length xs) + i)) xs else drop (nat i) xs)"

subsection \<open>\<open>int(s)\<close> and \<open>str(n)\<close>\<close>

text \<open>
  \<open>int(s)\<close> in base 10: white space around the literal is ignored, one sign may lead, and
  the digits may be grouped by single underscores. \<open>None\<close> stands for the \<open>ValueError\<close>.
  The white space \<open>int\<close> ignores is narrower than that of \<open>str.strip\<close>: the separators 28-31
  are not part of it. A literal of more than \<open>max_str_digits\<close> digits (4300 unless the
  interpreter is configured otherwise) is refused as well; underscores and the sign do not
  count.
\<close>

definition int_isspace :: "char \<Rightarrow> bool" where
  "int_isspace c =
     (let n = (of_char c :: nat) in (9 \<le> n \<and> n \<le> 13) \<or> n = 32 \<or> n = 133 \<or> n = 160)"

definition max_str_digits :: nat where
  "max_str_digits = 4300"

definition digit_val :: "char \<Rightarrow> nat" where
  "digit_val c = of_char c - 48"

fun after_digit :: "nat \<Rightarrow> string \<Rightarrow> nat option" where
  "after_digit acc [] = Some acc"
| "after_digit acc [c] = (if py_isdecimal c then Some (10 * acc + digit_val c) else None)"
| "after_digit acc (c # d # ds) =
     (if py_isdecimal c then after_digit (10 * acc + digit_val c) (d # ds)
      else if c = CHR ''_'' \<and> py_isdecimal d then after_digit (10 * acc + digit_val d) ds
      else None)"

definition parse_digits :: "string \<Rightarrow> nat option" where
  "parse_digits s =
     (case s of [] \<Rightarrow> None
      | c # cs \<Rightarrow> if py_isdecimal c then after_digit (digit_val c) cs else None)"

definition py_int :: "string \<Rightarrow> int option" where
  "py_int s =
     (let literal = rev (dropWhile int_isspace (rev (dropWhile int_isspace s)))
      in if length (filter py_isdecimal literal) > max_str_digits then None
         else case literal of [] \<Rightarrow> None
              | c # cs \<Rightarrow>
                  if c = CHR ''-'' then map_option (\<lambda>n. - int n) (parse_digits cs)
                  else if c = CHR ''+'' then map_option int (parse_digits cs)
                  else map_option int (parse_digits (c # cs)))"

fun digits_of :: "nat \<Rightarrow> nat \<Rightarrow> string" where
  "digits_of 0 n = []"
| "digits_of (Suc fuel) n =
     (if n < 10 then [char_of (48 + n)]
      else digits_of fuel (n div 10) @ [char_of (48 + n mod 10)])"

definition str_nat :: "nat \<Rightarrow> string" where
  "str_nat n = digits_of (Suc n) n"

definition str_int :: "int \<Rightarrow> string" where
  "str_int i = (if i < 0 then CHR ''-'' # str_nat (nat (- i)) else str_nat (nat i))"

section \<open>Regular expressions\<close>

text \<open>
  The patterns of the rule table are built from four character classes (a literal character,
  white space, a decimal digit, any character but the newline), each taken once, zero or
  more times, or one or more times, and at most one such item is a capture group.
  \<open>re.search\<close> on them is the greedy, backtracking, leftmost match of Python's \<open>re\<close>
  module; its result is \<open>None\<close> or the tuple \<open>match.groups()\<close>.
\<close>

datatype cclass = Lit char | Space | Digit | AnyChar

datatype quant = One | Star | Plus

datatype piece = Atom cclass quant | Group cclass quant

type_synonym regex = "piece list"

fun cclass_ok :: "cclass \<Rightarrow> char \<Rightarrow> bool" where
  "cclass_ok (Lit a) c = (a = c)"
| "cclass_ok Space c = py_isspace c"
| "cclass_ok Digit c = py_isdecimal c"
| "cclass_ok AnyChar c = (c \<noteq> CHR 0x0A)"

text \<open>The numbers of characters an item may take, the greedy choice first.\<close>

definition candidates :: "cclass \<Rightarrow> quant \<Rightarrow> string \<Rightarrow> nat list" where
  "candidates a q s =
     (let n = length (takeWhile (cclass_ok a) s)
      in case q of
           One \<Rightarrow> (if 1 \<le> n then [1] else [])
         | Star \<Rightarrow> rev [0..<Suc n]
         | Plus \<Rightarrow> rev [1..<Suc n])"

fun first_some :: "'a option list \<Rightarrow> 'a option" where
  "first_some [] = None"
| "first_some (Some x # xs) = Some x"
| "first_some (None # xs) = first_some xs"

fun match_here :: "regex \<Rightarrow> string \<Rightarrow> string list option" where
  "match_here [] s = Some []"
| "match_here (Atom a q # r) s =
     first_some (map (\<lambda>k. match_here r (drop k s)) (candidates a q s))"
| "match_here (Group a q # r) s =
     first_some (map (\<lambda>k. map_option ((#) (take k s)) (match_here r (drop k s)))
                     (candidates a q s))"

definition re_search :: "regex \<Rightarrow> string \<Rightarrow> string list option" where
  "re_search p s = first_some (map (\<lambda>i. match_here p (drop i s)) [0..<Suc (length s)])"

definition lit :: "string \<Rightarrow> regex" where
  "lit s = map (\<lambda>c. Atom (Lit c) One) s"

text \<open>White space once or more, white space zero or more times, and the three capture groups
  of the table: any characters (one or more, zero or more) and digits (one or more).\<close>

definition ws1 :: regex where "ws1 = [Atom Space Plus]"
definition ws0 :: regex where "ws0 = [Atom Space Star]"
definition any1 :: regex where "any1 = [Group AnyChar Plus]"
definition any0 :: regex where "any0 = [Group AnyChar Star]"
definition digits1 :: regex where "digits1 = [Group Digit Plus]"

section \<open>State, faults and collaborators\<close>

text \<open>
  A fault is an instance of Python's \<open>Exception\<close>, the class the \<open>except Exception\<close>
  clauses of the program catch. The interpreter's exit signals (\<open>KeyboardInterrupt\<close>,
  \<open>SystemExit\<close>) are not faults of a handler or a backend and are not modelled; the main
  loop deals with the former itself.
\<close>

datatype exn = ValueError | NameError string | TypeError | Error string

text \<open>The calls the command processor makes on its system controller.\<close>

datatype sc_call =
    OpenApplication string | CloseApplication string
  | OpenFile string | OpenFolder string | CreateFolder string | DeleteFile string
  | SearchFiles string
  | FindAndPlayMusic string | PlayYoutubeVideo string | SearchYoutube string
  | OpenWebsite string
  | GetSystemInfo
  | AdjustVolume int
  | TakeScreenshot | ShutdownSystem | RestartSystem | LockScreen

text \<open>
  The system controller is a collaborator handed to the constructor. What a call returns, or
  the fault it raises, may depend on the calls made before it: \<open>status_of\<close> answers the
  operations that return a status string, \<open>files_of\<close> answers \<open>search_files\<close> and
  \<open>info_of\<close> answers \<open>get_system_info\<close> (a dictionary, as an association list).
\<close>

record system_controller =
  status_of :: "sc_call list \<Rightarrow> sc_call \<Rightarrow> exn + string"
  files_of :: "sc_call list \<Rightarrow> string \<Rightarrow> exn + string list"
  info_of :: "sc_call list \<Rightarrow> exn + (string \<times> string) list"

text \<open>
  The surroundings of a run: the system controller, the two remote backends (the request and
  the extraction of the answer text, which succeed with the text or raise), the clock, the
  random choice of the greeting, and the two functions of the \<open>os\<close> module.
\<close>

record env =
  sc :: system_controller
  claude_create :: "string \<Rightarrow> exn + string"
  openai_create :: "(string \<times> string) list \<Rightarrow> exn + string"
  now_isoformat :: string
  now_strftime :: "string \<Rightarrow> string"
  random_choice :: nat
  expanduser :: "string \<Rightarrow> string"
  os_path_join :: "string \<Rightarrow> string \<Rightarrow> string"

record turn =
  user :: string
  assistant :: string
  timestamp :: string

text \<open>
  The mutable state: the fields of \<open>AIAssistant\<close> (a client is \<open>True\<close> when it is not
  \<open>None\<close>) and the trace of the calls made on the system controller.
\<close>

record world =
  conversation_history :: "turn list"
  max_history_length :: int
  jarvis_personality :: string
  claude_client :: bool
  openai_client :: bool
  sc_calls :: "sc_call list"

type_synonym result = "(exn + string) \<times> world"

section \<open>\<open>AIAssistant\<close>\<close>

definition default_personality :: string where
  \<open>default_personality =
     nl @ ''        You are JARVIS, an advanced AI assistant like from Iron Man. You should:''
   @ nl @ ''        - Be intelligent, helpful, and efficient''
   @ nl @ ''        - Speak in a sophisticated but friendly manner''
   @ nl @ ''        - Address the user as "sir" or "boss" occasionally''
   @ nl @ ''        - Be concise but informative''
   @ nl @ ''        - Show personality while being professional''
   @ nl @ ''        - Act like you're part of an advanced technological system''
   @ nl @ ''        ''\<close>

text \<open>\<open>AIAssistant.__init__\<close>: the clients exist when the keys are set and the clients could
  be built.\<close>

definition init_world :: "bool \<Rightarrow> bool \<Rightarrow> world" where
  "init_world claude openai =
     \<lparr>conversation_history = [], max_history_length = 10,
      jarvis_personality = default_personality,
      claude_client = claude, openai_client = openai, sc_calls = []\<rparr>"

definition add_to_history :: "string \<Rightarrow> string \<Rightarrow> string \<Rightarrow> world \<Rightarrow> world" where
  "add_to_history now user_input assistant_response w =
     (let h = conversation_history w
                @ [\<lparr>user = user_input, assistant = assistant_response, timestamp = now\<rparr>]
      in w\<lparr>conversation_history :=
              (if int (length h) > max_history_length w
               then slice_from (- max_history_length w) h else h)\<rparr>)"

definition clear_history :: "world \<Rightarrow> world" where
  "clear_history w = w\<lparr>conversation_history := []\<rparr>"

definition truthy :: "string option \<Rightarrow> bool" where
  "truthy c = (case c of None \<Rightarrow> False | Some s \<Rightarrow> s \<noteq> [])"

definition claude_prompt :: "world \<Rightarrow> string \<Rightarrow> string option \<Rightarrow> string" where
  "claude_prompt w question context =
     (let p0 = jarvis_personality w @ nl @ nl @ ''User: '' @ question;
          p1 = (if truthy context
                then jarvis_personality w @ nl @ nl @ ''Context: '' @ the context
                     @ nl @ nl @ ''User: '' @ question
                else p0)
      in if conversation_history w \<noteq> []
         then jarvis_personality w @ nl @ nl @ ''Recent conversation:'' @ nl
              @ join nl (map (\<lambda>h. ''User: '' @ user h @ nl @ ''JARVIS: '' @ assistant h)
                             (slice_from (- 3) (conversation_history w)))
              @ nl @ nl @ ''User: '' @ question
         else p1)"

text \<open>The body of the \<open>try\<close> of \<open>ask_claude\<close>; the history is written after the answer
  has arrived.\<close>

definition ask_claude_try :: "env \<Rightarrow> string \<Rightarrow> string option \<Rightarrow> world \<Rightarrow> result" where
  "ask_claude_try e question context w =
     (case claude_create e (claude_prompt w question context) of
        Inl x \<Rightarrow> (Inl x, w)
      | Inr answer \<Rightarrow> (Inr answer, add_to_history (now_isoformat e) question answer w))"

definition ask_claude :: "env \<Rightarrow> string \<Rightarrow> string option \<Rightarrow> world \<Rightarrow> result" where
  "ask_claude e question context w =
     (if \<not> claude_client w
      then (Inr ''Claude AI is not available. Please set ANTHROPIC_API_KEY environment variable.'', w)
      else case ask_claude_try e question context w of
             (Inl x, w') \<Rightarrow>
               (Inr ''I'm having trouble connecting to my AI systems right now, sir.'', w')
           | (Inr answer, w') \<Rightarrow> (Inr answer, w'))"

definition openai_messages :: "world \<Rightarrow> string \<Rightarrow> string option \<Rightarrow> (string \<times> string) list" where
  "openai_messages w question context =
     [(''system'', jarvis_personality w)]
     @ concat (map (\<lambda>h. [(''user'', user h), (''assistant'', assistant h)])
                   (slice_from (- 3) (conversation_history w)))
     @ (if truthy context then [(''system'', ''Context: '' @ the context)] else [])
     @ [(''user'', question)]"

definition ask_openai_try :: "env \<Rightarrow> string \<Rightarrow> string option \<Rightarrow> world \<Rightarrow> result" where
  "ask_openai_try e question context w =
     (case openai_create e (openai_messages w question context) of
        Inl x \<Rightarrow> (Inl x, w)
      | Inr answer \<Rightarrow> (Inr answer, add_to_history (now_isoformat e) question answer w))"

definition ask_openai :: "env \<Rightarrow> string \<Rightarrow> string option \<Rightarrow> world \<Rightarrow> result" where
  "ask_openai e question context w =
     (if \<not> openai_client w
      then (Inr ''OpenAI is not available. Please set OPENAI_API_KEY environment variable.'', w)
      else case ask_openai_try e question context w of
             (Inl x, w') \<Rightarrow>
               (Inr ''I'm experiencing difficulties with my neural networks, sir.'', w')
           | (Inr answer, w') \<Rightarrow> (Inr answer, w'))"

definition provide_basic_response :: "env \<Rightarrow> string \<Rightarrow> string" where
  "provide_basic_response e question =
     (let question_lower = lower question
      in if list_ex (contains question_lower) [''hello'', ''hi'', ''hey'', ''greetings'']
         then ''Hello sir. How may I assist you today?''
         else if list_ex (contains question_lower) [''time'', ''date'', ''day'']
         then ''The current time is '' @ now_strftime e ''%I:%M %p on %B %d, %Y'' @ '', sir.''
         else if contains question_lower ''weather''
         then ''I would need to access weather services to provide that information, sir.''
         else if list_ex (contains question_lower) [''how are you'', ''how do you feel'']
         then ''All systems are operating at optimal capacity, sir.''
         else ''I apologize, sir, but I need access to my AI systems to answer that question properly.'')"

definition ask_question :: "env \<Rightarrow> string \<Rightarrow> string option \<Rightarrow> string \<Rightarrow> world \<Rightarrow> result" where
  "ask_question e question0 context preferred_ai w =
     (let question = strip question0
      in if question = [] then (Inr ''I didn't catch that, sir. Could you repeat your question?'', w)
         else if preferred_ai = ''claude'' \<and> claude_client w then ask_claude e question context w
         else if preferred_ai = ''openai'' \<and> openai_client w then ask_openai e question context w
         else if claude_client w then ask_claude e question context w
         else if openai_client w then ask_openai e question context w
         else (Inr (provide_basic_response e question), w))"

definition modes :: "(string \<times> string) list" where
  "modes =
     [(''professional'',
       ''You are JARVIS, a professional AI assistant. Be formal, efficient, and direct.''),
      (''friendly'',
       ''You are JARVIS, a friendly AI assistant. Be warm, conversational, and helpful.''),
      (''technical'',
       ''You are JARVIS, a technical AI assistant. Provide detailed, technical explanations.''),
      (''iron_man'',
       ''You are JARVIS from Iron Man. Be sophisticated, slightly witty, and address the user as 'sir' or 'Mr. Stark'.'')]"

definition set_personality_mode :: "string \<Rightarrow> world \<Rightarrow> string \<times> world" where
  "set_personality_mode mode w =
     (case map_of modes mode of
        Some text \<Rightarrow>
          (''Personality mode updated to '' @ mode @ '', sir.'', w\<lparr>jarvis_personality := text\<rparr>)
      | None \<Rightarrow>
          (''Invalid personality mode. Available modes: professional, friendly, technical, iron_man.'',
           w))"

section \<open>\<open>SystemController.adjust_volume\<close>\<close>

text \<open>
  The level is clamped to 0..100 and handed to the platform's volume command; whatever that
  command raises is caught inside the method. \<open>platform_ok\<close> tells whether the command ran
  without a fault for the clamped level.
\<close>

definition adjust_volume :: "(int \<Rightarrow> bool) \<Rightarrow> int \<Rightarrow> exn + string" where
  "adjust_volume platform_ok level0 =
     (let level = max 0 (min 100 level0)
      in if platform_ok level then Inr (''Volume set to '' @ str_int level @ ''%'')
         else Inr ''Volume adjustment failed - trying alternative method'')"

section \<open>\<open>CommandProcessor\<close>: the handlers\<close>

text \<open>
  A handler is called with the positional arguments the dispatcher passes (the first group,
  or nothing) and returns its response or raises. A call with the wrong number of arguments
  raises \<open>TypeError\<close> before the body runs.
\<close>

type_synonym handler = "string list \<Rightarrow> world \<Rightarrow> result"

text \<open>
  What the rule table holds for a pattern is any callable. Functions and bound methods carry
  a \<open>__name__\<close>; other callables (a \<open>functools.partial\<close>, an object with \<open>__call__\<close>) need
  not, and \<open>name\<close> is \<open>None\<close> for them.
\<close>

record callable =
  name :: "string option"
  call :: handler

definition bound_method :: "string \<Rightarrow> handler \<Rightarrow> callable" where
  "bound_method n h = \<lparr>name = Some n, call = h\<rparr>"

definition nullary :: "(world \<Rightarrow> result) \<Rightarrow> handler" where
  "nullary f args w = (case args of [] \<Rightarrow> f w | _ \<Rightarrow> (Inl TypeError, w))"

definition unary :: "(string \<Rightarrow> world \<Rightarrow> result) \<Rightarrow> handler" where
  "unary f args w = (case args of [a] \<Rightarrow> f a w | _ \<Rightarrow> (Inl TypeError, w))"

definition optional :: "string \<Rightarrow> (string \<Rightarrow> world \<Rightarrow> result) \<Rightarrow> handler" where
  "optional d f args w =
     (case args of [] \<Rightarrow> f d w | [a] \<Rightarrow> f a w | _ \<Rightarrow> (Inl TypeError, w))"

text \<open>A call of an operation of the system controller that returns a status string; the
  call is recorded whether it returns or raises.\<close>

definition call_status :: "env \<Rightarrow> sc_call \<Rightarrow> world \<Rightarrow> result" where
  "call_status e c w = (status_of (sc e) (sc_calls w) c, w\<lparr>sc_calls := sc_calls w @ [c]\<rparr>)"

definition apostrophe :: string where
  "apostrophe = [CHR 0x27]"

definition handle_open_application :: "env \<Rightarrow> string \<Rightarrow> world \<Rightarrow> result" where
  "handle_open_application e app_name w = call_status e (OpenApplication app_name) w"

definition handle_close_application :: "env \<Rightarrow> string \<Rightarrow> world \<Rightarrow> result" where
  "handle_close_application e app_name w = call_status e (CloseApplication app_name) w"

definition handle_open_file :: "env \<Rightarrow> string \<Rightarrow> world \<Rightarrow> result" where
  "handle_open_file e file_path w = call_status e (OpenFile file_path) w"

definition handle_open_folder :: "env \<Rightarrow> string \<Rightarrow> world \<Rightarrow> result" where
  "handle_open_folder e folder_path w = call_status e (OpenFolder folder_path) w"

text \<open>
  The names bound at module level in \<open>command_processor.py\<close>: its four imports and its
  class. Reading any other name that is not a builtin raises \<open>NameError\<close>; \<open>os\<close> is
  such a name.
\<close>

definition module_globals :: "string list" where
  "module_globals = [''logging'', ''re'', ''datetime'', ''json'', ''CommandProcessor'']"

definition global_name :: "string \<Rightarrow> exn + unit" where
  "global_name n = (if n \<in> set module_globals then Inr () else Inl (NameError n))"

definition handle_create_folder :: "env \<Rightarrow> string \<Rightarrow> world \<Rightarrow> result" where
  "handle_create_folder e folder_name w =
     (if folder_name = [] \<or> strip folder_name = []
      then (Inr (''Please specify a folder name, sir. For example: '' @ apostrophe
                 @ ''create folder MyDocuments'' @ apostrophe), w)
      else case global_name ''os'' of
             Inl x \<Rightarrow> (Inl x, w)
           | Inr _ \<Rightarrow>
               (let desktop_path = os_path_join e (expanduser e ''~'') ''Desktop'';
                    folder_path = os_path_join e desktop_path (strip folder_name)
                in call_status e (CreateFolder folder_path) w))"

definition handle_delete_file :: "env \<Rightarrow> string \<Rightarrow> world \<Rightarrow> result" where
  "handle_delete_file e file_path w = call_status e (DeleteFile file_path) w"

definition handle_search_files :: "env \<Rightarrow> string \<Rightarrow> world \<Rightarrow> result" where
  "handle_search_files e search_term w =
     (let w' = w\<lparr>sc_calls := sc_calls w @ [SearchFiles search_term]\<rparr>
      in case files_of (sc e) (sc_calls w) search_term of
           Inl x \<Rightarrow> (Inl x, w')
         | Inr results \<Rightarrow>
             (if results \<noteq> []
              then (Inr (''Found '' @ str_nat (length results) @ '' files matching ''
                         @ apostrophe @ search_term @ apostrophe @ '', sir.''), w')
              else (Inr (''No files found matching '' @ apostrophe @ search_term @ apostrophe
                         @ '', sir.''), w')))"

fun try_music_apps :: "env \<Rightarrow> string list \<Rightarrow> world \<Rightarrow> result" where
  "try_music_apps e [] w = (Inr ''Opening default music application, sir.'', w)"
| "try_music_apps e (app # apps) w =
     (case call_status e (OpenApplication app) w of
        (Inl x, w') \<Rightarrow> (Inl x, w')
      | (Inr result, w') \<Rightarrow>
          if \<not> contains result ''Could not find''
          then (Inr (''Opening '' @ app @ '' for music, sir.''), w')
          else try_music_apps e apps w')"

definition handle_play_music :: "env \<Rightarrow> string \<Rightarrow> world \<Rightarrow> result" where
  "handle_play_music e search_term w =
     (if search_term = [] \<or> strip search_term = []
      then case call_status e (OpenApplication ''spotify'') w of
             (Inl x, w') \<Rightarrow> (Inl x, w')
           | (Inr result, w') \<Rightarrow>
               if contains result ''Could not find''
               then try_music_apps e [''vlc'', ''windows media player'', ''groove music''] w'
               else (Inr result, w')
      else call_status e (FindAndPlayMusic (strip search_term)) w)"

definition handle_play_youtube :: "env \<Rightarrow> string \<Rightarrow> world \<Rightarrow> result" where
  "handle_play_youtube e search_term w = call_status e (PlayYoutubeVideo search_term) w"

definition handle_search_youtube :: "env \<Rightarrow> string \<Rightarrow> world \<Rightarrow> result" where
  "handle_search_youtube e search_term w = call_status e (SearchYoutube search_term) w"

definition handle_open_website :: "env \<Rightarrow> string \<Rightarrow> world \<Rightarrow> result" where
  "handle_open_website e url w = call_status e (OpenWebsite url) w"

definition info_get :: "(string \<times> string) list \<Rightarrow> string \<Rightarrow> string" where
  "info_get info k = (case map_of info k of Some v \<Rightarrow> v | None \<Rightarrow> ''unknown'')"

definition handle_system_info :: "env \<Rightarrow> world \<Rightarrow> result" where
  "handle_system_info e w =
     (let w' = w\<lparr>sc_calls := sc_calls w @ [GetSystemInfo]\<rparr>
      in case info_of (sc e) (sc_calls w) of
           Inl x \<Rightarrow> (Inl x, w')
         | Inr info \<Rightarrow>
             (if info \<noteq> []
              then (Inr (''System status: CPU at '' @ info_get info ''cpu'' @ '', ''
                         @ ''Memory at '' @ info_get info ''memory'' @ '', ''
                         @ ''Disk at '' @ info_get info ''disk'' @ '', sir.''), w')
              else (Inr ''Unable to retrieve system information, sir.'', w')))"

text \<open>
  \<open>handle_set_volume\<close>: every percent sign is removed from the level, the rest is trimmed
  and read by \<open>int\<close>; the \<open>except ValueError\<close> also covers the call of the collaborator.
\<close>

definition invalid_volume :: "string \<Rightarrow> string" where
  "invalid_volume level =
     ''Invalid volume level '' @ apostrophe @ level @ apostrophe
     @ '', sir. Please specify a number between 0 and 100.''"

definition handle_set_volume :: "env \<Rightarrow> string \<Rightarrow> world \<Rightarrow> result" where
  "handle_set_volume e level w =
     (let level_str = strip (filter (\<lambda>c. c \<noteq> CHR ''%'') level)
      in case py_int level_str of
           None \<Rightarrow> (Inr (invalid_volume level), w)
         | Some volume_level \<Rightarrow>
             (case call_status e (AdjustVolume volume_level) w of
                (Inl ValueError, w') \<Rightarrow> (Inr (invalid_volume level), w')
              | (Inl x, w') \<Rightarrow> (Inl x, w')
              | (Inr result, w') \<Rightarrow> (Inr result, w')))"

definition handle_increase_volume :: "world \<Rightarrow> result" where
  "handle_increase_volume w = (Inr ''Increasing volume, sir.'', w)"

definition handle_decrease_volume :: "world \<Rightarrow> result" where
  "handle_decrease_volume w = (Inr ''Decreasing volume, sir.'', w)"

definition handle_mute :: "env \<Rightarrow> world \<Rightarrow> result" where
  "handle_mute e w =
     (case call_status e (AdjustVolume 0) w of
        (Inl x, w') \<Rightarrow> (Inl x, w')
      | (Inr result, w') \<Rightarrow> (Inr ''Audio muted, sir.'', w'))"

definition handle_screenshot :: "env \<Rightarrow> world \<Rightarrow> result" where
  "handle_screenshot e w = call_status e TakeScreenshot w"

definition handle_shutdown :: "env \<Rightarrow> world \<Rightarrow> result" where
  "handle_shutdown e w = call_status e ShutdownSystem w"

definition handle_restart :: "env \<Rightarrow> world \<Rightarrow> result" where
  "handle_restart e w = call_status e RestartSystem w"

definition handle_lock_screen :: "env \<Rightarrow> world \<Rightarrow> result" where
  "handle_lock_screen e w = call_status e LockScreen w"

definition handle_time :: "env \<Rightarrow> world \<Rightarrow> result" where
  "handle_time e w =
     (Inr (''The current time is '' @ now_strftime e ''%I:%M %p'' @ '', sir.''), w)"

definition handle_date :: "env \<Rightarrow> world \<Rightarrow> result" where
  "handle_date e w = (Inr (''Today is '' @ now_strftime e ''%B %d, %Y'' @ '', sir.''), w)"

definition greetings :: "string list" where
  "greetings =
     [''Hello sir, how may I assist you?'',
      ''Good to see you, sir. What can I do for you?'',
      ''At your service, sir.'',
      ''Hello sir, all systems ready.'',
      ''Greetings, sir. How may I be of assistance?'']"

definition handle_greeting :: "env \<Rightarrow> world \<Rightarrow> result" where
  "handle_greeting e w = (Inr (greetings ! (random_choice e mod length greetings)), w)"

definition handle_general_query :: "env \<Rightarrow> string \<Rightarrow> world \<Rightarrow> result" where
  "handle_general_query e query w = ask_question e query None ''claude'' w"

definition handle_clear_history :: "world \<Rightarrow> result" where
  "handle_clear_history w = (Inr ''Conversation history cleared, sir.'', clear_history w)"

definition handle_set_personality :: "string \<Rightarrow> world \<Rightarrow> result" where
  "handle_set_personality mode w =
     (case set_personality_mode mode w of (r, w') \<Rightarrow> (Inr r, w'))"

definition help_text :: string where
  "help_text =
     ''I can help you with:''
     @ nl @ ''        - Opening and closing applications''
     @ nl @ ''        - File and folder operations''
     @ nl @ ''        - Playing music and videos''
     @ nl @ ''        - Web browsing and YouTube''
     @ nl @ ''        - System control and information''
     @ nl @ ''        - Screenshots and volume control''
     @ nl @ ''        - General questions and conversation''
     @ nl @ ''        What would you like me to do, sir?''"

definition handle_help :: "world \<Rightarrow> result" where
  "handle_help w = (Inr help_text, w)"

section \<open>\<open>CommandProcessor\<close>: the rule table and the dispatcher\<close>

text \<open>
  The rule table is a dictionary from patterns to handlers, read in insertion order: an
  association list whose keys are distinct. These are the rules of the constructor; each
  handler is a bound method of the processor.
\<close>

definition command_patterns :: "env \<Rightarrow> (regex \<times> callable) list" where
  "command_patterns e =
     [
      (lit ''open'' @ ws1 @ any1,
       bound_method ''handle_open_application'' (unary (handle_open_application e))),
      (lit ''launch'' @ ws1 @ any1,
       bound_method ''handle_open_application'' (unary (handle_open_application e))),
      (lit ''start'' @ ws1 @ any1,
       bound_method ''handle_open_application'' (unary (handle_open_application e))),
      (lit ''run'' @ ws1 @ any1,
       bound_method ''handle_open_application'' (unary (handle_open_application e))),
      (lit ''close'' @ ws1 @ any1,
       bound_method ''handle_close_application'' (unary (handle_close_application e))),
      (lit ''quit'' @ ws1 @ any1,
       bound_method ''handle_close_application'' (unary (handle_close_application e))),
      (lit ''exit'' @ ws1 @ any1,
       bound_method ''handle_close_application'' (unary (handle_close_application e))),
      (lit ''open'' @ ws1 @ lit ''file'' @ ws1 @ any1,
       bound_method ''handle_open_file'' (unary (handle_open_file e))),
      (lit ''open'' @ ws1 @ lit ''folder'' @ ws1 @ any1,
       bound_method ''handle_open_folder'' (unary (handle_open_folder e))),
      (lit ''create'' @ ws1 @ lit ''folder'' @ ws1 @ any1,
       bound_method ''handle_create_folder'' (unary (handle_create_folder e))),
      (lit ''create'' @ ws1 @ lit ''a'' @ ws1 @ lit ''folder'' @ ws1 @ any1,
       bound_method ''handle_create_folder'' (unary (handle_create_folder e))),
      (lit ''make'' @ ws1 @ lit ''folder'' @ ws1 @ any1,
       bound_method ''handle_create_folder'' (unary (handle_create_folder e))),
      (lit ''new'' @ ws1 @ lit ''folder'' @ ws1 @ any1,
       bound_method ''handle_create_folder'' (unary (handle_create_folder e))),
      (lit ''delete'' @ ws1 @ lit ''file'' @ ws1 @ any1,
       bound_method ''handle_delete_file'' (unary (handle_delete_file e))),
      (lit ''search'' @ ws1 @ lit ''for'' @ ws1 @ any1,
       bound_method ''handle_search_files'' (unary (handle_search_files e))),
      (lit ''play'' @ ws1 @ lit ''music'' @ ws0 @ any0,
       bound_method ''handle_play_music'' (optional [] (handle_play_music e))),
      (lit ''play'' @ ws1 @ lit ''song'' @ ws0 @ any0,
       bound_method ''handle_play_music'' (optional [] (handle_play_music e))),
      (lit ''play'' @ ws1 @ any1 @ ws1 @ lit ''on'' @ ws1 @ lit ''youtube'',
       bound_method ''handle_play_youtube'' (unary (handle_play_youtube e))),
      (lit ''youtube'' @ ws1 @ any1,
       bound_method ''handle_search_youtube'' (unary (handle_search_youtube e))),
      (lit ''search'' @ ws1 @ lit ''youtube'' @ ws1 @ any1,
       bound_method ''handle_search_youtube'' (unary (handle_search_youtube e))),
      (lit ''music'' @ ws0 @ any0,
       bound_method ''handle_play_music'' (optional [] (handle_play_music e))),
      (lit ''open'' @ ws1 @ lit ''website'' @ ws1 @ any1,
       bound_method ''handle_open_website'' (unary (handle_open_website e))),
      (lit ''go'' @ ws1 @ lit ''to'' @ ws1 @ any1,
       bound_method ''handle_open_website'' (unary (handle_open_website e))),
      (lit ''browse'' @ ws1 @ any1,
       bound_method ''handle_open_website'' (unary (handle_open_website e))),
      (lit ''system'' @ ws1 @ lit ''info'',
       bound_method ''handle_system_info'' (nullary (handle_system_info e))),
      (lit ''system'' @ ws1 @ lit ''status'',
       bound_method ''handle_system_info'' (nullary (handle_system_info e))),
      (lit ''how'' @ ws1 @ lit ''is'' @ ws1 @ lit ''the'' @ ws1 @ lit ''system'',
       bound_method ''handle_system_info'' (nullary (handle_system_info e))),
      (lit ''set'' @ ws1 @ lit ''volume'' @ ws1 @ lit ''to'' @ ws1 @ digits1,
       bound_method ''handle_set_volume'' (unary (handle_set_volume e))),
      (lit ''volume'' @ ws1 @ digits1,
       bound_method ''handle_set_volume'' (unary (handle_set_volume e))),
      (lit ''set'' @ ws1 @ lit ''volume'' @ ws1 @ digits1,
       bound_method ''handle_set_volume'' (unary (handle_set_volume e))),
      (lit ''increase'' @ ws1 @ lit ''volume'',
       bound_method ''handle_increase_volume'' (nullary handle_increase_volume)),
      (lit ''decrease'' @ ws1 @ lit ''volume'',
       bound_method ''handle_decrease_volume'' (nullary handle_decrease_volume)),
      (lit ''mute'',
       bound_method ''handle_mute'' (nullary (handle_mute e))),
      (lit ''take'' @ ws1 @ lit ''screenshot'',
       bound_method ''handle_screenshot'' (nullary (handle_screenshot e))),
      (lit ''screenshot'',
       bound_method ''handle_screenshot'' (nullary (handle_screenshot e))),
      (lit ''capture'' @ ws1 @ lit ''screen'',
       bound_method ''handle_screenshot'' (nullary (handle_screenshot e))),
      (lit ''shutdown'' @ ws1 @ lit ''system'',
       bound_method ''handle_shutdown'' (nullary (handle_shutdown e))),
      (lit ''restart'' @ ws1 @ lit ''system'',
       bound_method ''handle_restart'' (nullary (handle_restart e))),
      (lit ''lock'' @ ws1 @ lit ''screen'',
       bound_method ''handle_lock_screen'' (nullary (handle_lock_screen e))),
      (lit ''what'' @ ws1 @ lit ''time'' @ ws1 @ lit ''is'' @ ws1 @ lit ''it'',
       bound_method ''handle_time'' (nullary (handle_time e))),
      (lit ''current'' @ ws1 @ lit ''time'',
       bound_method ''handle_time'' (nullary (handle_time e))),
      (lit ''what'' @ ws1 @ lit ''date'' @ ws1 @ lit ''is'' @ ws1 @ lit ''it'',
       bound_method ''handle_date'' (nullary (handle_date e))),
      (lit ''current'' @ ws1 @ lit ''date'',
       bound_method ''handle_date'' (nullary (handle_date e))),
      (lit ''hello'' @ ws0 @ lit ''jarvis'',
       bound_method ''handle_greeting'' (nullary (handle_greeting e))),
      (lit ''hi'' @ ws0 @ lit ''jarvis'',
       bound_method ''handle_greeting'' (nullary (handle_greeting e))),
      (lit ''hey'' @ ws0 @ lit ''jarvis'',
       bound_method ''handle_greeting'' (nullary (handle_greeting e))),
      (lit ''good'' @ ws1 @ lit ''morning'',
       bound_method ''handle_greeting'' (nullary (handle_greeting e))),
      (lit ''good'' @ ws1 @ lit ''afternoon'',
       bound_method ''handle_greeting'' (nullary (handle_greeting e))),
      (lit ''good'' @ ws1 @ lit ''evening'',
       bound_method ''handle_greeting'' (nullary (handle_greeting e))),
      (lit ''clear'' @ ws1 @ lit ''history'',
       bound_method ''handle_clear_history'' (nullary handle_clear_history)),
      (lit ''set'' @ ws1 @ lit ''personality'' @ ws1 @ any1,
       bound_method ''handle_set_personality'' (unary handle_set_personality)),
      (lit ''help'',
       bound_method ''handle_help'' (nullary handle_help)),
      (lit ''what'' @ ws1 @ lit ''can'' @ ws1 @ lit ''you'' @ ws1 @ lit ''do'',
       bound_method ''handle_help'' (nullary handle_help)),
      (lit ''commands'',
       bound_method ''handle_help'' (nullary handle_help))
     ]"

definition add_custom_command ::
  "('p \<times> callable) list \<Rightarrow> 'p \<Rightarrow> callable \<Rightarrow> ('p \<times> callable) list" where
  "add_custom_command rules pattern h =
     (if pattern \<in> set (map fst rules)
      then map (\<lambda>(p, h0). if p = pattern then (p, h) else (p, h0)) rules
      else rules @ [(pattern, h)])"

definition remove_custom_command ::
  "('p \<times> callable) list \<Rightarrow> 'p \<Rightarrow> ('p \<times> callable) list \<times> bool" where
  "remove_custom_command rules pattern =
     (if pattern \<in> set (map fst rules)
      then (filter (\<lambda>(p, h0). p \<noteq> pattern) rules, True)
      else (rules, False))"

definition get_available_commands :: "('p \<times> callable) list \<Rightarrow> 'p list" where
  "get_available_commands rules = map fst rules"

text \<open>
  The \<open>try\<close> of \<open>process_command\<close> around the handler of the rule that matched: the handler
  is called with the first group when the pattern has groups and with nothing otherwise;
  then its \<open>__name__\<close> is read for the log line, still inside the \<open>try\<close>, which raises
  \<open>AttributeError\<close> when there is none; then the response is returned. Whatever is raised
  is answered with the fixed error sentence. Log lines are not part of the state.
\<close>

definition attempt :: "callable \<Rightarrow> string list \<Rightarrow> world \<Rightarrow> result" where
  "attempt h groups w =
     (case (if groups \<noteq> [] then call h [hd groups] w else call h [] w) of
        (Inl x, w') \<Rightarrow> (Inr ''I encountered an error processing that command, sir.'', w')
      | (Inr response, w') \<Rightarrow>
          (case name h of
             None \<Rightarrow> (Inr ''I encountered an error processing that command, sir.'', w')
           | Some n \<Rightarrow> (Inr response, w')))"

text \<open>
  The loop of \<open>process_command\<close> over the rules: \<open>None\<close> when no pattern matches, otherwise
  the outcome of the first rule whose pattern matches. \<open>search\<close> is \<open>re.search\<close>.
\<close>

fun match_rules ::
  "('p \<Rightarrow> string \<Rightarrow> string list option) \<Rightarrow> ('p \<times> callable) list \<Rightarrow> string \<Rightarrow> world
     \<Rightarrow> result option" where
  "match_rules search [] command w = None"
| "match_rules search ((pattern, h) # rules) command w =
     (case search pattern command of
        None \<Rightarrow> match_rules search rules command w
      | Some groups \<Rightarrow> Some (attempt h groups w))"

definition process_command ::
  "('p \<Rightarrow> string \<Rightarrow> string list option) \<Rightarrow> env \<Rightarrow> ('p \<times> callable) list \<Rightarrow> string \<Rightarrow> world
     \<Rightarrow> result" where
  "process_command search e rules command0 w =
     (if command0 = [] then (Inr ''I didn't catch that, sir.'', w)
      else let command = strip (lower command0)
           in case match_rules search rules command w of
                Some r \<Rightarrow> r
              | None \<Rightarrow> handle_general_query e command w)"

section \<open>Sequences of operations on the assistant\<close>

text \<open>The methods of \<open>AIAssistant\<close> that write its state, and \<open>process_command\<close> over the
  rules of the constructor, as operations; \<open>run\<close> performs a sequence of them.\<close>

datatype operation =
    AddToHistory string string string
  | ClearHistory
  | SetPersonalityMode string
  | AskClaude string "string option"
  | AskOpenai string "string option"
  | AskQuestion string "string option" string
  | ProcessCommand string

fun step :: "env \<Rightarrow> operation \<Rightarrow> world \<Rightarrow> world" where
  "step e (AddToHistory now u a) w = add_to_history now u a w"
| "step e ClearHistory w = clear_history w"
| "step e (SetPersonalityMode mode) w = snd (set_personality_mode mode w)"
| "step e (AskClaude q c) w = snd (ask_claude e q c w)"
| "step e (AskOpenai q c) w = snd (ask_openai e q c w)"
| "step e (AskQuestion q c p) w = snd (ask_question e q c p w)"
| "step e (ProcessCommand c) w = snd (process_command re_search e (command_patterns e) c w)"

fun run :: "env \<Rightarrow> operation list \<Rightarrow> world \<Rightarrow> world" where
  "run e [] w = w"
| "run e (x # xs) w = run e xs (step e x w)"

text \<open>Appending turns one after the other, each given by its time stamp, the user's text
  and the assistant's text.\<close>

definition turn_of :: "string \<times> string \<times> string \<Rightarrow> turn" where
  "turn_of x = (case x of (now, u, a) \<Rightarrow> \<lparr>user = u, assistant = a, timestamp = now\<rparr>)"

definition appends :: "(string \<times> string \<times> string) list \<Rightarrow> operation list" where
  "appends ts = map (\<lambda>(now, u, a). AddToHistory now u a) ts"

text \<open>The history fits a positive capacity \<open>m\<close>, which is the configured one.\<close>

definition bounded :: "int \<Rightarrow> world \<Rightarrow> bool" where
  "bounded m w =
     (0 < m \<and> max_history_length w = m \<and> int (length (conversation_history w)) \<le> m)"

definition keeps :: "(world \<Rightarrow> result) \<Rightarrow> bool" where
  "keeps f = (\<forall>m w. bounded m w \<longrightarrow> bounded m (snd (f w)))"

definition keeps_handler :: "handler \<Rightarrow> bool" where
  "keeps_handler h = (\<forall>args. keeps (h args))"

section \<open>Stubs\<close>

text \<open>
  A system controller in the manner of the mock of the module's self-test: opening an
  application answers \<open>Opening\<close> and its name, the metrics are fixed, the volume is the
  \<open>adjust_volume\<close> above on a platform whose volume command works or not, and every other
  operation answers \<open>Done\<close>.
\<close>

definition stub_controller :: "bool \<Rightarrow> system_controller" where
  "stub_controller platform_ok =
     \<lparr>status_of = (\<lambda>calls c. case c of
                      OpenApplication app \<Rightarrow> Inr (''Opening '' @ app)
                    | AdjustVolume level \<Rightarrow> adjust_volume (\<lambda>l. platform_ok) level
                    | _ \<Rightarrow> Inr ''Done''),
      files_of = (\<lambda>calls term. Inr []),
      info_of = (\<lambda>calls. Inr [(''cpu'', ''25%''), (''memory'', ''60%''), (''disk'', ''45%'')])\<rparr>"

text \<open>Surroundings in which the first backend answers \<open>Affirmative.\<close> to a prompt that ends
  in a question mark and fails otherwise, and the second backend always fails.\<close>

definition stub_env :: "bool \<Rightarrow> env" where
  "stub_env platform_ok =
     \<lparr>sc = stub_controller platform_ok,
      claude_create = (\<lambda>prompt. if prompt \<noteq> [] \<and> last prompt = CHR ''?''
                                 then Inr ''Affirmative.'' else Inl (Error ''connection'')),
      openai_create = (\<lambda>messages. Inl (Error ''timeout'')),
      now_isoformat = ''2024-01-01T09:30:00'',
      now_strftime = (\<lambda>format. format),
      random_choice = 0,
      expanduser = (\<lambda>path. ''/home/tony''),
      os_path_join = (\<lambda>a b. a @ ''/'' @ b)\<rparr>"

definition stub_world :: "bool \<Rightarrow> bool \<Rightarrow> world" where
  "stub_world claude openai =
     \<lparr>conversation_history = [], max_history_length = 10, jarvis_personality = ''You are JARVIS.'',
      claude_client = claude, openai_client = openai, sc_calls = []\<rparr>"

text \<open>A rule table with one rule, whose pattern matches every string, the empty one too.\<close>

definition catch_all_rules :: "(regex \<times> callable) list" where
  "catch_all_rules =
     [(any0, bound_method ''handle_open_application''
               (unary (handle_open_application (stub_env True))))]"

text \<open>A rule table whose one handler is a callable without a \<open>__name__\<close> that answers
  \<open>pong\<close>.\<close>

definition nameless_rules :: "(regex \<times> callable) list" where
  "nameless_rules =
     [(lit ''ping'', \<lparr>name = None, call = nullary (\<lambda>w. (Inr ''pong'', w))\<rparr>)]"

definition fifteen_turns :: "(string \<times> string \<times> string) list" where
  "fifteen_turns = map (\<lambda>n. (''now'', ''q'' @ str_nat n, ''a'' @ str_nat n)) [1..<16]"

text \<open>The reading of the specification for the volume handler: only a percent sign at the
  end of the argument is dropped.\<close>

definition spec_strip_trailing_percent :: "string \<Rightarrow> string" where
  "spec_strip_trailing_percent s = (if s \<noteq> [] \<and> last s = CHR ''%'' then butlast s else s)"

section \<open>The loop over the rules\<close>

lemma attempt_Inr: "\<exists>s. fst (attempt h groups w) = Inr s"
  by (auto simp: attempt_def split: prod.splits sum.splits option.splits)

lemma match_rules_first:
  assumes "i < length rules"
    and "search (fst (rules ! i)) c = Some groups"
    and "\<forall>j<i. search (fst (rules ! j)) c = None"
  shows "match_rules search rules c w = Some (attempt (snd (rules ! i)) groups w)"
  using assms
proof (induction rules arbitrary: i)
  case Nil
  then show ?case by simp
next
  case (Cons r rules)
  obtain p h where r: "r = (p, h)" by (cases r)
  show ?case
  proof (cases i)
    case 0
    with Cons.prems r show ?thesis by simp
  next
    case (Suc k)
    from Cons.prems(3) Suc have "search (fst ((r # rules) ! 0)) c = None" by blast
    then have none: "search p c = None" using r by simp
    have k: "k < length rules" using Cons.prems(1) Suc by simp
    have sk: "search (fst (rules ! k)) c = Some groups" using Cons.prems(2) Suc by simp
    have "\<forall>j<k. search (fst (rules ! j)) c = None"
    proof (intro allI impI)
      fix j assume "j < k"
      then have "Suc j < i" using Suc by simp
      with Cons.prems(3) have "search (fst ((r # rules) ! Suc j)) c = None" by blast
      then show "search (fst (rules ! j)) c = None" by simp
    qed
    from Cons.IH[OF k sk this] none r Suc show ?thesis by simp
  qed
qed

lemma match_rules_none:
  "(\<forall>r \<in> set rules. search (fst r) c = None) \<Longrightarrow> match_rules search rules c w = None"
  by (induction rules) auto

lemma match_rules_Inr:
  "match_rules search rules c w = Some (r, w') \<Longrightarrow> \<exists>s. r = Inr s"
proof (induction rules)
  case Nil
  then show ?case by simp
next
  case (Cons x rules)
  obtain p h where x: "x = (p, h)" by (cases x)
  show ?case
  proof (cases "search p c")
    case None
    with Cons x show ?thesis by simp
  next
    case (Some groups)
    with Cons.prems x have "attempt h groups w = (r, w')" by simp
    with attempt_Inr[of h groups w] show ?thesis by simp
  qed
qed

lemma ask_claude_Inr: "\<exists>s. fst (ask_claude e q c w) = Inr s"
  by (auto simp: ask_claude_def split: prod.splits sum.splits)

lemma ask_openai_Inr: "\<exists>s. fst (ask_openai e q c w) = Inr s"
  by (auto simp: ask_openai_def split: prod.splits sum.splits)

lemma ask_question_Inr: "\<exists>s. fst (ask_question e q c p w) = Inr s"
  using ask_claude_Inr ask_openai_Inr by (auto simp: ask_question_def Let_def)

lemma process_command_Inr: "\<exists>s. fst (process_command search e rules c w) = Inr s"
proof (cases "c = []")
  case True then show ?thesis by (simp add: process_command_def)
next
  case False
  show ?thesis
  proof (cases "match_rules search rules (strip (lower c)) w")
    case None
    with False show ?thesis
      using ask_question_Inr by (simp add: process_command_def handle_general_query_def)
  next
    case (Some r)
    obtain a w' where "r = (a, w')" by (cases r)
    with Some match_rules_Inr[of search rules "strip (lower c)" w a w'] False
    show ?thesis by (auto simp: process_command_def)
  qed
qed

section \<open>The bounded history\<close>

lemma bounded_sc_calls [simp]: "bounded m (w\<lparr>sc_calls := x\<rparr>) = bounded m w"
  by (simp add: bounded_def)

lemma bounded_personality [simp]: "bounded m (w\<lparr>jarvis_personality := x\<rparr>) = bounded m w"
  by (simp add: bounded_def)

lemma add_to_history_capacity [simp]:
  "max_history_length (add_to_history now u a w) = max_history_length w"
  by (simp add: add_to_history_def Let_def)

lemma add_to_history_contents:
  assumes "0 < max_history_length w"
  shows "conversation_history (add_to_history now u a w) =
         (let h = conversation_history w @ [\<lparr>user = u, assistant = a, timestamp = now\<rparr>]
          in drop (length h - nat (max_history_length w)) h)"
proof -
  let ?h = "conversation_history w @ [\<lparr>user = u, assistant = a, timestamp = now\<rparr>]"
  let ?m = "max_history_length w"
  have eq: "nat (int (length ?h) + - ?m) = length ?h - nat ?m"
    using assms by linarith
  show ?thesis
  proof (cases "int (length ?h) > ?m")
    case True
    then show ?thesis using assms eq
      by (simp add: add_to_history_def Let_def slice_from_def)
  next
    case False
    then have "length ?h - nat ?m = 0" using assms by linarith
    with False show ?thesis
      by (simp add: add_to_history_def Let_def)
  qed
qed

lemma add_to_history_bounded:
  "0 < max_history_length w \<Longrightarrow> bounded (max_history_length w) (add_to_history now u a w)"
  unfolding bounded_def
  by (simp add: add_to_history_contents Let_def)

lemma clear_history_bounded: "bounded m w \<Longrightarrow> bounded m (clear_history w)"
  by (simp add: bounded_def clear_history_def)

lemma set_personality_mode_bounded: "bounded m w \<Longrightarrow> bounded m (snd (set_personality_mode mode w))"
  by (simp add: set_personality_mode_def split: option.splits)

lemma ask_claude_bounded:
  assumes "bounded m w"
  shows "bounded m (snd (ask_claude e q c w))"
proof -
  have m: "0 < max_history_length w" "max_history_length w = m"
    using assms by (simp_all add: bounded_def)
  show ?thesis using assms add_to_history_bounded[OF m(1)] m(2)
    by (auto simp: ask_claude_def ask_claude_try_def split: sum.splits)
qed

lemma ask_openai_bounded:
  assumes "bounded m w"
  shows "bounded m (snd (ask_openai e q c w))"
proof -
  have m: "0 < max_history_length w" "max_history_length w = m"
    using assms by (simp_all add: bounded_def)
  show ?thesis using assms add_to_history_bounded[OF m(1)] m(2)
    by (auto simp: ask_openai_def ask_openai_try_def split: sum.splits)
qed

lemma ask_question_bounded: "bounded m w \<Longrightarrow> bounded m (snd (ask_question e q c p w))"
  by (simp add: ask_question_def Let_def ask_claude_bounded ask_openai_bounded)

lemma call_status_bounded: "bounded m w \<Longrightarrow> bounded m (snd (call_status e c w))"
  by (simp add: call_status_def)

lemma try_music_apps_bounded: "bounded m w \<Longrightarrow> bounded m (snd (try_music_apps e apps w))"
  by (induction apps arbitrary: w) (auto simp: call_status_def split: sum.splits)

lemma keeps_call_status [simp]: "keeps (call_status e c)"
  by (simp add: keeps_def call_status_def)

lemma keeps_handlers [simp]:
  "keeps (handle_open_application e a)" "keeps (handle_close_application e a)"
  "keeps (handle_open_file e a)" "keeps (handle_open_folder e a)"
  "keeps (handle_delete_file e a)" "keeps (handle_play_youtube e a)"
  "keeps (handle_search_youtube e a)" "keeps (handle_open_website e a)"
  "keeps (handle_screenshot e)" "keeps (handle_shutdown e)" "keeps (handle_restart e)"
  "keeps (handle_lock_screen e)"
  by (simp_all add: keeps_def call_status_def handle_open_application_def handle_close_application_def
      handle_open_file_def handle_open_folder_def handle_delete_file_def
      handle_play_youtube_def handle_search_youtube_def handle_open_website_def
      handle_screenshot_def handle_shutdown_def handle_restart_def handle_lock_screen_def)

lemma keeps_pure [simp]:
  "keeps handle_increase_volume" "keeps handle_decrease_volume" "keeps (handle_time e)"
  "keeps (handle_date e)" "keeps (handle_greeting e)" "keeps handle_help"
  by (simp_all add: keeps_def handle_increase_volume_def handle_decrease_volume_def
      handle_time_def handle_date_def handle_greeting_def handle_help_def)

lemma keeps_create_folder [simp]: "keeps (handle_create_folder e a)"
  by (simp add: keeps_def handle_create_folder_def call_status_def Let_def split: sum.splits)

lemma keeps_search_files [simp]: "keeps (handle_search_files e a)"
  by (simp add: keeps_def handle_search_files_def Let_def split: sum.splits)

lemma keeps_play_music [simp]: "keeps (handle_play_music e a)"
  by (auto simp: keeps_def handle_play_music_def call_status_def try_music_apps_bounded
      split: sum.splits)

lemma keeps_system_info [simp]: "keeps (handle_system_info e)"
  by (simp add: keeps_def handle_system_info_def Let_def split: sum.splits)

lemma keeps_set_volume [simp]: "keeps (handle_set_volume e a)"
  by (simp add: keeps_def handle_set_volume_def call_status_def Let_def
      split: option.splits sum.splits exn.splits)

lemma keeps_mute [simp]: "keeps (handle_mute e)"
  by (simp add: keeps_def handle_mute_def call_status_def split: sum.splits)

lemma keeps_clear_history [simp]: "keeps handle_clear_history"
  by (simp add: keeps_def handle_clear_history_def clear_history_bounded)

lemma keeps_set_personality [simp]: "keeps (handle_set_personality a)"
  by (auto simp: keeps_def handle_set_personality_def split: prod.splits
      dest: set_personality_mode_bounded[of _ _ a])

lemma keeps_TypeError [simp]: "keeps (\<lambda>w. (Inl TypeError, w))"
  by (simp add: keeps_def)

lemma keeps_nullary [simp]: "keeps f \<Longrightarrow> keeps_handler (nullary f)"
  by (auto simp: keeps_handler_def keeps_def nullary_def split: list.splits)

lemma keeps_unary [simp]: "(\<And>a. keeps (f a)) \<Longrightarrow> keeps_handler (unary f)"
  by (auto simp: keeps_handler_def keeps_def unary_def split: list.splits)

lemma keeps_optional [simp]: "(\<And>a. keeps (f a)) \<Longrightarrow> keeps_handler (optional d f)"
  by (auto simp: keeps_handler_def keeps_def optional_def split: list.splits)

lemma command_patterns_keep:
  "list_all (\<lambda>r. keeps_handler (call (snd r))) (command_patterns e)"
  by (simp add: command_patterns_def bound_method_def)

lemma attempt_bounded:
  assumes "keeps_handler (call h)" and "bounded m w"
  shows "bounded m (snd (attempt h groups w))"
proof -
  have kh: "\<And>args. bounded m (snd (call h args w))"
    using assms by (simp add: keeps_handler_def keeps_def)
  from kh[of "[hd groups]"] kh[of "[]"] show ?thesis
    by (auto simp: attempt_def split: if_splits prod.splits sum.splits option.splits)
qed

lemma match_rules_bounded:
  "list_all (\<lambda>r. keeps_handler (call (snd r))) rules \<Longrightarrow> bounded m w \<Longrightarrow>
   match_rules search rules c w = Some (r, w') \<Longrightarrow> bounded m w'"
proof (induction rules)
  case Nil
  then show ?case by simp
next
  case (Cons x rules)
  obtain p h where x: "x = (p, h)" by (cases x)
  show ?case
  proof (cases "search p c")
    case None
    with Cons x show ?thesis by simp
  next
    case (Some groups)
    from Cons.prems(1) x have "keeps_handler (call h)" by simp
    from attempt_bounded[OF this Cons.prems(2), of groups] Some Cons.prems(3) x
    show ?thesis by simp
  qed
qed

lemma process_command_bounded:
  assumes "list_all (\<lambda>r. keeps_handler (call (snd r))) rules" and "bounded m w"
  shows "bounded m (snd (process_command search e rules c w))"
proof (cases "c = []")
  case True
  with assms show ?thesis by (simp add: process_command_def)
next
  case False
  show ?thesis
  proof (cases "match_rules search rules (strip (lower c)) w")
    case None
    with False assms show ?thesis
      by (simp add: process_command_def handle_general_query_def ask_question_bounded)
  next
    case (Some r)
    obtain a w' where r: "r = (a, w')" by (cases r)
    with Some match_rules_bounded[OF assms, of search "strip (lower c)" a w'] False
    show ?thesis by (simp add: process_command_def)
  qed
qed

lemma add_to_history_keeps: "bounded m w \<Longrightarrow> bounded m (add_to_history now u a w)"
  using add_to_history_bounded[of w now u a] by (simp add: bounded_def[of m w])

lemma step_bounded: "bounded m w \<Longrightarrow> bounded m (step e x w)"
  by (cases x)
     (simp_all add: add_to_history_keeps clear_history_bounded
        set_personality_mode_bounded ask_claude_bounded ask_openai_bounded ask_question_bounded
        process_command_bounded command_patterns_keep)

lemma run_bounded: "bounded m w \<Longrightarrow> bounded m (run e xs w)"
  by (induction xs arbitrary: w) (simp_all add: step_bounded)

lemma drop_last_append:
  "drop (length (drop (length xs - m) xs @ ys) - m) (drop (length xs - m) xs @ ys)
   = drop (length (xs @ ys) - m) (xs @ ys)"
proof (cases "m \<le> length xs")
  case True
  then show ?thesis by (simp add: add.commute)
next
  case False
  then show ?thesis by simp
qed

lemma run_appends_contents:
  assumes "bounded m w"
  shows "conversation_history (run e (appends ts) w) =
           (let h = conversation_history w @ map turn_of ts in drop (length h - nat m) h)"
  using assms
proof (induction ts arbitrary: w)
  case Nil
  then have "length (conversation_history w) \<le> nat m"
    unfolding bounded_def by linarith
  then show ?case by (simp add: appends_def)
next
  case (Cons t ts)
  obtain now u a where t: "t = (now, u, a)" by (cases t)
  let ?w = "add_to_history now u a w"
  have b: "bounded m ?w" using Cons.prems by (rule add_to_history_keeps)
  have m: "0 < max_history_length w" "max_history_length w = m"
    using Cons.prems by (simp_all add: bounded_def)
  have h: "conversation_history ?w =
        drop (length (conversation_history w @ [turn_of t]) - nat m)
             (conversation_history w @ [turn_of t])"
    using add_to_history_contents[OF m(1), of now u a] m(2) t
    by (simp add: Let_def turn_of_def)
  have "conversation_history (run e (appends (t # ts)) w)
        = conversation_history (run e (appends ts) ?w)"
    using t by (simp add: appends_def)
  also have "\<dots> = (let h = conversation_history ?w @ map turn_of ts
                   in drop (length h - nat m) h)"
    using Cons.IH[OF b] .
  also have "\<dots> = (let h = conversation_history w @ map turn_of (t # ts)
                   in drop (length h - nat m) h)"
    unfolding h Let_def
    using drop_last_append[of "conversation_history w @ [turn_of t]" "nat m" "map turn_of ts"]
    by simp
  finally show ?case .
qed

text \<open>
  C3. The history never grows beyond its capacity: from a state whose capacity is positive
  (it is 10 after construction) and whose history fits it, every sequence of operations
  leaves the capacity as it was and a history no longer than it; and appending turns leaves
  the last \<open>capacity\<close> of all the turns, oldest first.
\<close>

theorem history_never_exceeds_capacity:
  assumes "0 < max_history_length w"
    and "int (length (conversation_history w)) \<le> max_history_length w"
  shows "max_history_length (run e ops w) = max_history_length w
       \<and> int (length (conversation_history (run e ops w))) \<le> max_history_length w
       \<and> conversation_history (run e (appends ts) w) =
           (let h = conversation_history w @ map turn_of ts
            in drop (length h - nat (max_history_length w)) h)"
proof -
  have b: "bounded (max_history_length w) w" using assms by (simp add: bounded_def)
  from run_bounded[OF b, of e ops] run_appends_contents[OF b, of e ts]
  show ?thesis by (simp add: bounded_def)
qed

theorem history_never_exceeds_capacity_witness:
  "0 < max_history_length (init_world False False)
   \<and> int (length (conversation_history (init_world False False)))
       \<le> max_history_length (init_world False False)
   \<and> max_history_length (run (stub_env True) (appends fifteen_turns) (init_world False False)) = 10
   \<and> length (conversation_history
        (run (stub_env True) (appends fifteen_turns) (init_world False False))) = 10
   \<and> map user (conversation_history
        (run (stub_env True) (appends fifteen_turns) (init_world False False)))
       = [''q6'', ''q7'', ''q8'', ''q9'', ''q10'', ''q11'', ''q12'', ''q13'', ''q14'', ''q15'']"
proof -
  let ?w = "init_world False False"
  let ?r = "run (stub_env True) (appends fifteen_turns) ?w"
  have a: "0 < max_history_length ?w" by (simp add: init_world_def)
  have b: "int (length (conversation_history ?w)) \<le> max_history_length ?w"
    by (simp add: init_world_def)
  note t = history_never_exceeds_capacity[OF a b, of "stub_env True" "appends fifteen_turns"
      fifteen_turns]
  have m: "max_history_length ?w = 10" by (simp add: init_world_def)
  have c: "max_history_length ?r = 10" using t[THEN conjunct1] m by simp
  have d: "conversation_history ?r =
      (let h = conversation_history ?w @ map turn_of fifteen_turns
       in drop (length h - nat (max_history_length ?w)) h)"
    by (rule t[THEN conjunct2, THEN conjunct2])
  have e: "map user (let h = conversation_history ?w @ map turn_of fifteen_turns
                     in drop (length h - nat (max_history_length ?w)) h)
      = [''q6'', ''q7'', ''q8'', ''q9'', ''q10'', ''q11'', ''q12'', ''q13'', ''q14'', ''q15'']"
    by code_simp
  have f: "map user (conversation_history ?r)
      = [''q6'', ''q7'', ''q8'', ''q9'', ''q10'', ''q11'', ''q12'', ''q13'', ''q14'', ''q15'']"
    using d e by simp
  have "length (map user (conversation_history ?r)) = 10" unfolding f by simp
  then have g: "length (conversation_history ?r) = 10" by simp
  show ?thesis by (intro conjI a b c g f)
qed

section \<open>The personality modes\<close>

lemma modes_keys: "fst ` set modes = {''professional'', ''friendly'', ''technical'', ''iron_man''}"
  by (simp add: modes_def)

text \<open>
  C4. \<open>set_personality_mode\<close> with one of the four modes makes the text of that mode the
  active personality and answers with a confirmation that names the mode; with any other
  mode it leaves the state as it is and answers with the error that lists the four modes.
\<close>

theorem set_personality_mode_valid_or_unchanged:
  "(mode \<in> {''professional'', ''friendly'', ''technical'', ''iron_man''} \<longrightarrow>
      set_personality_mode mode w =
        (''Personality mode updated to '' @ mode @ '', sir.'',
         w\<lparr>jarvis_personality := the (map_of modes mode)\<rparr>))
   \<and> (mode \<notin> {''professional'', ''friendly'', ''technical'', ''iron_man''} \<longrightarrow>
      set_personality_mode mode w =
        (''Invalid personality mode. Available modes: professional, friendly, technical, iron_man.'',
         w))"
proof (cases "map_of modes mode")
  case None
  then have "mode \<notin> fst ` set modes" by (simp add: map_of_eq_None_iff)
  then have "mode \<notin> {''professional'', ''friendly'', ''technical'', ''iron_man''}"
    unfolding modes_keys .
  with None show ?thesis unfolding set_personality_mode_def by simp
next
  case (Some t)
  then have "mode \<in> fst ` set modes" by (metis map_of_eq_None_iff option.distinct(1))
  then have "mode \<in> {''professional'', ''friendly'', ''technical'', ''iron_man''}"
    unfolding modes_keys .
  with Some show ?thesis unfolding set_personality_mode_def by simp
qed

theorem set_personality_mode_valid_or_unchanged_witness:
  "''technical'' \<in> {''professional'', ''friendly'', ''technical'', ''iron_man''}
   \<and> set_personality_mode ''technical'' (stub_world False False) =
        (''Personality mode updated to technical, sir.'',
         (stub_world False False)\<lparr>jarvis_personality :=
            ''You are JARVIS, a technical AI assistant. Provide detailed, technical explanations.''\<rparr>)
   \<and> ''bogus'' \<notin> {''professional'', ''friendly'', ''technical'', ''iron_man''}
   \<and> set_personality_mode ''bogus'' (stub_world False False) =
        (''Invalid personality mode. Available modes: professional, friendly, technical, iron_man.'',
         stub_world False False)"
proof -
  have a: "''technical'' \<in> {''professional'', ''friendly'', ''technical'', ''iron_man''}" by simp
  have b: "''bogus'' \<notin> {''professional'', ''friendly'', ''technical'', ''iron_man''}" by simp
  have c: "the (map_of modes ''technical'') =
      ''You are JARVIS, a technical AI assistant. Provide detailed, technical explanations.''"
    by (simp add: modes_def)
  have p: "''Personality mode updated to '' @ ''technical'' @ '', sir.''
      = ''Personality mode updated to technical, sir.''" by simp
  note t = set_personality_mode_valid_or_unchanged[of "''technical''" "stub_world False False"]
  have "set_personality_mode ''technical'' (stub_world False False) =
        (''Personality mode updated to '' @ ''technical'' @ '', sir.'',
         (stub_world False False)\<lparr>jarvis_personality := the (map_of modes ''technical'')\<rparr>)"
    by (rule t[THEN conjunct1, THEN mp, OF a])
  then have d: "set_personality_mode ''technical'' (stub_world False False) =
        (''Personality mode updated to technical, sir.'',
         (stub_world False False)\<lparr>jarvis_personality :=
            ''You are JARVIS, a technical AI assistant. Provide detailed, technical explanations.''\<rparr>)"
    unfolding c p .
  have e: "set_personality_mode ''bogus'' (stub_world False False) =
        (''Invalid personality mode. Available modes: professional, friendly, technical, iron_man.'',
         stub_world False False)"
    by (rule set_personality_mode_valid_or_unchanged[of "''bogus''" "stub_world False False",
          THEN conjunct2, THEN mp, OF b])
  show ?thesis by (intro conjI a b d e)
qed

section \<open>Muting\<close>

text \<open>
  C10. \<open>handle_mute\<close> calls \<open>adjust_volume(0)\<close> on the collaborator and, whatever status
  string the call returns, answers \<open>Audio muted, sir.\<close>; so it does with the
  \<open>adjust_volume\<close> of \<open>SystemController\<close>, whether the platform command worked or not.
\<close>

theorem handle_mute_discards_status:
  "(status_of (sc e) (sc_calls w) (AdjustVolume 0) = Inr status \<longrightarrow>
      handle_mute e w = (Inr ''Audio muted, sir.'', w\<lparr>sc_calls := sc_calls w @ [AdjustVolume 0]\<rparr>))
   \<and> (status_of (sc e) (sc_calls w) (AdjustVolume 0) = adjust_volume platform_ok 0 \<longrightarrow>
      handle_mute e w = (Inr ''Audio muted, sir.'', w\<lparr>sc_calls := sc_calls w @ [AdjustVolume 0]\<rparr>))"
  by (simp add: handle_mute_def call_status_def adjust_volume_def Let_def)

theorem handle_mute_discards_status_witness:
  "status_of (sc (stub_env False)) (sc_calls (stub_world False False)) (AdjustVolume 0)
     = Inr ''Volume adjustment failed - trying alternative method''
   \<and> status_of (sc (stub_env False)) (sc_calls (stub_world False False)) (AdjustVolume 0)
     = adjust_volume (\<lambda>l. False) 0
   \<and> handle_mute (stub_env False) (stub_world False False)
     = (Inr ''Audio muted, sir.'', (stub_world False False)\<lparr>sc_calls := [AdjustVolume 0]\<rparr>)"
proof -
  have a: "status_of (sc (stub_env False)) (sc_calls (stub_world False False)) (AdjustVolume 0)
     = Inr ''Volume adjustment failed - trying alternative method''"
    by (simp add: stub_env_def stub_controller_def adjust_volume_def)
  have b: "status_of (sc (stub_env False)) (sc_calls (stub_world False False)) (AdjustVolume 0)
     = adjust_volume (\<lambda>l. False) 0"
    by (simp add: stub_env_def stub_controller_def)
  have c: "sc_calls (stub_world False False) @ [AdjustVolume 0] = [AdjustVolume 0]"
    by (simp add: stub_world_def)
  from handle_mute_discards_status[of "stub_env False" "stub_world False False"
      "''Volume adjustment failed - trying alternative method''" "\<lambda>l. False"] a c
  have "handle_mute (stub_env False) (stub_world False False)
     = (Inr ''Audio muted, sir.'', (stub_world False False)\<lparr>sc_calls := [AdjustVolume 0]\<rparr>)"
    by simp
  with a b show ?thesis by (intro conjI)
qed

section \<open>The dispatcher: the empty input, the first match, the fallback\<close>

lemma process_command_empty:
  "process_command search e rules [] w = (Inr ''I didn't catch that, sir.'', w)"
  by (simp add: process_command_def)

lemma strip_nonempty: "strip s \<noteq> [] \<Longrightarrow> s \<noteq> []"
  by (auto simp: strip_def)

lemma process_command_first_match:
  assumes "command \<noteq> []"
    and "i < length rules"
    and "search (fst (rules ! i)) (strip (lower command)) = Some groups"
    and "\<forall>j<i. search (fst (rules ! j)) (strip (lower command)) = None"
  shows "process_command search e rules command w = attempt (snd (rules ! i)) groups w"
proof -
  have "match_rules search rules (strip (lower command)) w
        = Some (attempt (snd (rules ! i)) groups w)"
    using assms(2-4) by (rule match_rules_first)
  then show ?thesis using assms(1) by (simp add: process_command_def)
qed

lemma attempt_named:
  "name h = Some n \<Longrightarrow>
   attempt h groups w =
     (case call h (if groups \<noteq> [] then [hd groups] else []) w of
        (Inl x, w') \<Rightarrow> (Inr ''I encountered an error processing that command, sir.'', w')
      | (Inr response, w') \<Rightarrow> (Inr response, w'))"
  by (cases "groups = []") (simp_all add: attempt_def split: prod.splits sum.splits)

lemma attempt_raised:
  "call h (if groups \<noteq> [] then [hd groups] else []) w = (Inl x, w') \<Longrightarrow>
   attempt h groups w = (Inr ''I encountered an error processing that command, sir.'', w')"
  by (cases "groups = []") (simp_all add: attempt_def)

text \<open>
  A callable without a \<open>__name__\<close> that is the first match is called, and the error sentence
  is returned in place of what it returned.
\<close>

lemma process_command_handler_without_name:
  assumes "command \<noteq> []"
    and "i < length rules"
    and "search (fst (rules ! i)) (strip (lower command)) = Some groups"
    and "\<forall>j<i. search (fst (rules ! j)) (strip (lower command)) = None"
    and "name (snd (rules ! i)) = None"
    and "call (snd (rules ! i)) (if groups \<noteq> [] then [hd groups] else []) w = (r, w')"
  shows "process_command search e rules command w
         = (Inr ''I encountered an error processing that command, sir.'', w')"
proof -
  have "attempt (snd (rules ! i)) groups w
        = (Inr ''I encountered an error processing that command, sir.'', w')"
    using assms(5,6) by (cases "groups = []"; cases r) (simp_all add: attempt_def)
  moreover have "process_command search e rules command w
        = attempt (snd (rules ! i)) groups w"
    using assms(1-4) by (rule process_command_first_match)
  ultimately show ?thesis by simp
qed

lemma none_before:
  "list_all (\<lambda>r. search (fst r) c = None) (take i rules) \<Longrightarrow> i \<le> length rules \<Longrightarrow>
   \<forall>j<i. search (fst (rules ! j)) c = None"
  by (simp add: list_all_length)

lemma process_command_no_match:
  assumes "command \<noteq> []"
    and "\<forall>r\<in>set rules. search (fst r) (strip (lower command)) = None"
  shows "process_command search e rules command w =
         ask_question e (strip (lower command)) None ''claude'' w"
  using assms match_rules_none[of rules search "strip (lower command)" w]
  by (simp add: process_command_def handle_general_query_def)

lemma process_command_nameless_example:
  "call (snd (nameless_rules ! 0)) [] (stub_world False False)
     = (Inr ''pong'', stub_world False False)
   \<and> process_command re_search (stub_env True) nameless_rules ''ping'' (stub_world False False)
     = (Inr ''I encountered an error processing that command, sir.'', stub_world False False)"
proof -
  have a: "call (snd (nameless_rules ! 0)) [] (stub_world False False)
     = (Inr ''pong'', stub_world False False)"
    by code_simp
  have b: "process_command re_search (stub_env True) nameless_rules ''ping''
       (stub_world False False)
     = (Inr ''I encountered an error processing that command, sir.'', stub_world False False)"
    by code_simp
  show ?thesis by (intro conjI a b)
qed

text \<open>
  C1, amended. For every rule table and every input that is neither empty nor white space
  only: when the lower-cased, trimmed input matches the pattern of rule \<open>i\<close> and of no rule
  before it, and the handler of rule \<open>i\<close> carries a \<open>__name__\<close> (as every function and bound
  method does), \<open>process_command\<close> calls exactly that handler, with the first group when the
  pattern has groups and with no argument otherwise, and returns its response (the fixed
  error sentence when the handler raises). As stated, for every input, the claim fails at
  the empty input, which returns before any rule is tried.
\<close>

theorem first_matching_rule_wins:
  assumes "strip command \<noteq> []"
    and "i < length rules"
    and "search (fst (rules ! i)) (strip (lower command)) = Some groups"
    and "\<forall>j<i. search (fst (rules ! j)) (strip (lower command)) = None"
    and "name (snd (rules ! i)) = Some n"
  shows "process_command search e rules command w =
     (case call (snd (rules ! i)) (if groups \<noteq> [] then [hd groups] else []) w of
        (Inl x, w') \<Rightarrow> (Inr ''I encountered an error processing that command, sir.'', w')
      | (Inr response, w') \<Rightarrow> (Inr response, w'))"
proof -
  have "command \<noteq> []" using assms(1) by (rule strip_nonempty)
  then have "process_command search e rules command w = attempt (snd (rules ! i)) groups w"
    using assms(2-4) by (rule process_command_first_match)
  then show ?thesis unfolding attempt_named[OF assms(5)] .
qed

theorem first_matching_rule_wins_witness:
  "strip ''Close Mute'' \<noteq> []
   \<and> 4 < length (command_patterns (stub_env True))
   \<and> re_search (fst (command_patterns (stub_env True) ! 4)) (strip (lower ''Close Mute''))
       = Some [''mute'']
   \<and> list_all (\<lambda>r. re_search (fst r) (strip (lower ''Close Mute'')) = None)
        (take 4 (command_patterns (stub_env True)))
   \<and> name (snd (command_patterns (stub_env True) ! 4)) = Some ''handle_close_application''
   \<and> re_search (fst (command_patterns (stub_env True) ! 32)) (strip (lower ''Close Mute''))
       = Some []
   \<and> process_command re_search (stub_env True) (command_patterns (stub_env True)) ''Close Mute''
        (stub_world False False)
       = (Inr ''Done'', (stub_world False False)\<lparr>sc_calls := [CloseApplication ''mute'']\<rparr>)"
proof -
  let ?rules = "command_patterns (stub_env True)"
  let ?c = "strip (lower ''Close Mute'')"
  let ?w = "stub_world False False"
  have a: "strip ''Close Mute'' \<noteq> []" by code_simp
  have b: "4 < length ?rules" by (simp add: command_patterns_def)
  have c: "re_search (fst (?rules ! 4)) ?c = Some [''mute'']" by code_simp
  have d: "list_all (\<lambda>r. re_search (fst r) ?c = None) (take 4 ?rules)" by code_simp
  have d': "\<forall>j<4. re_search (fst (?rules ! j)) ?c = None"
    using d b by (intro none_before) simp_all
  have n: "name (snd (?rules ! 4)) = Some ''handle_close_application''" by code_simp
  have f: "re_search (fst (?rules ! 32)) ?c = Some []" by code_simp
  have g: "(case call (snd (?rules ! 4)) (if [''mute''] \<noteq> [] then [hd [''mute'']] else []) ?w of
        (Inl x, w') \<Rightarrow> (Inr ''I encountered an error processing that command, sir.'', w')
      | (Inr response, w') \<Rightarrow> (Inr response, w'))
      = ((Inr ''Done'', ?w\<lparr>sc_calls := [CloseApplication ''mute'']\<rparr>) :: result)"
    by code_simp
  have h: "process_command re_search (stub_env True) ?rules ''Close Mute'' ?w
       = (Inr ''Done'', ?w\<lparr>sc_calls := [CloseApplication ''mute'']\<rparr>)"
    using first_matching_rule_wins[where search = re_search and rules = ?rules and i = 4
        and command = "''Close Mute''" and groups = "[''mute'']" and e = "stub_env True"
        and w = ?w and n = "''handle_close_application''", OF a b c d' n]
    unfolding g .
  show ?thesis by (intro conjI a b c d n f h)
qed

theorem first_matching_rule_wins_counterexample:
  "0 < length catch_all_rules
   \<and> re_search (fst (catch_all_rules ! 0)) (strip (lower [])) = Some [[]]
   \<and> name (snd (catch_all_rules ! 0)) = Some ''handle_open_application''
   \<and> (case call (snd (catch_all_rules ! 0)) [[]] (stub_world False False) of
        (Inl x, w') \<Rightarrow> (Inr ''I encountered an error processing that command, sir.'', w')
      | (Inr response, w') \<Rightarrow> (Inr response, w'))
       = ((Inr ''Opening '', (stub_world False False)\<lparr>sc_calls := [OpenApplication []]\<rparr>)
          :: result)
   \<and> process_command re_search (stub_env True) catch_all_rules [] (stub_world False False)
       = (Inr ''I didn't catch that, sir.'', stub_world False False)
   \<and> process_command re_search (stub_env True) catch_all_rules [] (stub_world False False)
       \<noteq> (case call (snd (catch_all_rules ! 0)) [[]] (stub_world False False) of
            (Inl x, w') \<Rightarrow> (Inr ''I encountered an error processing that command, sir.'', w')
          | (Inr response, w') \<Rightarrow> (Inr response, w'))"
proof -
  have a: "0 < length catch_all_rules" by (simp add: catch_all_rules_def)
  have b: "re_search (fst (catch_all_rules ! 0)) (strip (lower [])) = Some [[]]" by code_simp
  have n: "name (snd (catch_all_rules ! 0)) = Some ''handle_open_application''" by code_simp
  have c: "(case call (snd (catch_all_rules ! 0)) [[]] (stub_world False False) of
        (Inl x, w') \<Rightarrow> (Inr ''I encountered an error processing that command, sir.'', w')
      | (Inr response, w') \<Rightarrow> (Inr response, w'))
       = ((Inr ''Opening '', (stub_world False False)\<lparr>sc_calls := [OpenApplication []]\<rparr>)
          :: result)"
    by code_simp
  have d: "process_command re_search (stub_env True) catch_all_rules [] (stub_world False False)
       = (Inr ''I didn't catch that, sir.'', stub_world False False)"
    by (rule process_command_empty)
  have e: "process_command re_search (stub_env True) catch_all_rules [] (stub_world False False)
       \<noteq> (case call (snd (catch_all_rules ! 0)) [[]] (stub_world False False) of
            (Inl x, w') \<Rightarrow> (Inr ''I encountered an error processing that command, sir.'', w')
          | (Inr response, w') \<Rightarrow> (Inr response, w'))"
    unfolding c d by simp
  show ?thesis by (intro conjI a b n c d e)
qed

text \<open>
  C7. \<open>process_command\<close> always returns a response and never raises; when the handler of
  the first matching rule raises, the response is the fixed error sentence, and the state
  is the one the handler left.
\<close>

theorem handler_fault_never_propagates:
  "(\<exists>s. fst (process_command search e rules command w) = Inr s)
   \<and> (command \<noteq> [] \<and> i < length rules
        \<and> search (fst (rules ! i)) (strip (lower command)) = Some groups
        \<and> (\<forall>j<i. search (fst (rules ! j)) (strip (lower command)) = None)
        \<and> call (snd (rules ! i)) (if groups \<noteq> [] then [hd groups] else []) w = (Inl x, w')
      \<longrightarrow> process_command search e rules command w
            = (Inr ''I encountered an error processing that command, sir.'', w'))"
proof (intro conjI impI)
  show "\<exists>s. fst (process_command search e rules command w) = Inr s"
    by (rule process_command_Inr)
next
  assume h: "command \<noteq> [] \<and> i < length rules
        \<and> search (fst (rules ! i)) (strip (lower command)) = Some groups
        \<and> (\<forall>j<i. search (fst (rules ! j)) (strip (lower command)) = None)
        \<and> call (snd (rules ! i)) (if groups \<noteq> [] then [hd groups] else []) w = (Inl x, w')"
  then have "process_command search e rules command w = attempt (snd (rules ! i)) groups w"
    by (intro process_command_first_match) simp_all
  moreover have "attempt (snd (rules ! i)) groups w
      = (Inr ''I encountered an error processing that command, sir.'', w')"
    using h by (intro attempt_raised) simp
  ultimately show "process_command search e rules command w
            = (Inr ''I encountered an error processing that command, sir.'', w')"
    by simp
qed

theorem handler_fault_never_propagates_witness:
  "''create folder reports'' \<noteq> []
   \<and> 9 < length (command_patterns (stub_env True))
   \<and> re_search (fst (command_patterns (stub_env True) ! 9)) (strip (lower ''create folder reports''))
       = Some [''reports'']
   \<and> list_all (\<lambda>r. re_search (fst r) (strip (lower ''create folder reports'')) = None)
        (take 9 (command_patterns (stub_env True)))
   \<and> call (snd (command_patterns (stub_env True) ! 9))
        (if [''reports''] \<noteq> [] then [hd [''reports'']] else []) (stub_world False False)
       = (Inl (NameError ''os''), stub_world False False)
   \<and> process_command re_search (stub_env True) (command_patterns (stub_env True))
        ''create folder reports'' (stub_world False False)
       = (Inr ''I encountered an error processing that command, sir.'', stub_world False False)"
proof -
  let ?rules = "command_patterns (stub_env True)"
  let ?c = "strip (lower ''create folder reports'')"
  let ?w = "stub_world False False"
  have a: "''create folder reports'' \<noteq> []" by simp
  have b: "9 < length ?rules" by (simp add: command_patterns_def)
  have c: "re_search (fst (?rules ! 9)) ?c = Some [''reports'']" by code_simp
  have d: "list_all (\<lambda>r. re_search (fst r) ?c = None) (take 9 ?rules)" by code_simp
  have d': "\<forall>j<9. re_search (fst (?rules ! j)) ?c = None"
    using d b by (intro none_before) simp_all
  have f: "call (snd (?rules ! 9)) (if [''reports''] \<noteq> [] then [hd [''reports'']] else []) ?w
       = (Inl (NameError ''os''), ?w)"
    by code_simp
  have h: "process_command re_search (stub_env True) ?rules ''create folder reports'' ?w
       = (Inr ''I encountered an error processing that command, sir.'', ?w)"
    by (rule handler_fault_never_propagates[where search = re_search and rules = ?rules
          and i = 9 and command = "''create folder reports''" and groups = "[''reports'']"
          and e = "stub_env True" and w = ?w and x = "NameError ''os''" and w' = ?w,
          THEN conjunct2, THEN mp]) (intro conjI a b c d' f)
  show ?thesis by (intro conjI a b c d f h)
qed

text \<open>
  C9, amended. A non-empty input that matches no rule is handed to \<open>ask_question\<close> lower-cased
  and trimmed, with no context and the default backend. As stated, with the raw input, the
  claim fails at every input with a capital letter.
\<close>

theorem unmatched_command_goes_to_the_assistant:
  assumes "command \<noteq> []"
    and "\<forall>r\<in>set rules. search (fst r) (strip (lower command)) = None"
  shows "process_command search e rules command w =
         ask_question e (strip (lower command)) None ''claude'' w"
  using assms by (rule process_command_no_match)

theorem unmatched_command_goes_to_the_assistant_witness:
  "''Are You There?'' \<noteq> []
   \<and> list_all (\<lambda>r. re_search (fst r) (strip (lower ''Are You There?'')) = None)
        (command_patterns (stub_env True))
   \<and> strip (lower ''Are You There?'') = ''are you there?''
   \<and> process_command re_search (stub_env True) (command_patterns (stub_env True))
        ''Are You There?'' (stub_world True False)
       = ask_question (stub_env True) ''are you there?'' None ''claude'' (stub_world True False)"
proof -
  let ?rules = "command_patterns (stub_env True)"
  have a: "''Are You There?'' \<noteq> []" by simp
  have b: "list_all (\<lambda>r. re_search (fst r) (strip (lower ''Are You There?'')) = None) ?rules"
    by code_simp
  have b': "\<forall>r\<in>set ?rules. re_search (fst r) (strip (lower ''Are You There?'')) = None"
    using b by (simp only: list_all_iff)
  have c: "strip (lower ''Are You There?'') = ''are you there?''" by code_simp
  have d: "process_command re_search (stub_env True) ?rules ''Are You There?'' (stub_world True False)
       = ask_question (stub_env True) ''are you there?'' None ''claude'' (stub_world True False)"
    using unmatched_command_goes_to_the_assistant[where search = re_search and rules = ?rules
        and command = "''Are You There?''" and e = "stub_env True" and w = "stub_world True False",
        OF a b']
    unfolding c .
  show ?thesis by (intro conjI a b c d)
qed

theorem unmatched_command_goes_to_the_assistant_counterexample:
  "''Are You There?'' \<noteq> []
   \<and> match_rules re_search (command_patterns (stub_env True)) (strip (lower ''Are You There?''))
        (stub_world True False) = None
   \<and> map user (conversation_history (snd (process_command re_search (stub_env True)
        (command_patterns (stub_env True)) ''Are You There?'' (stub_world True False))))
       = [''are you there?'']
   \<and> map user (conversation_history (snd (ask_question (stub_env True) ''Are You There?'' None
        ''claude'' (stub_world True False))))
       = [''Are You There?'']
   \<and> process_command re_search (stub_env True) (command_patterns (stub_env True))
        ''Are You There?'' (stub_world True False)
       \<noteq> ask_question (stub_env True) ''Are You There?'' None ''claude'' (stub_world True False)"
proof -
  have a: "''Are You There?'' \<noteq> []" by simp
  have b: "match_rules re_search (command_patterns (stub_env True))
        (strip (lower ''Are You There?'')) (stub_world True False) = None"
    by code_simp
  have c: "map user (conversation_history (snd (process_command re_search (stub_env True)
        (command_patterns (stub_env True)) ''Are You There?'' (stub_world True False))))
       = [''are you there?'']"
    by code_simp
  have d: "map user (conversation_history (snd (ask_question (stub_env True) ''Are You There?''
        None ''claude'' (stub_world True False))))
       = [''Are You There?'']"
    by code_simp
  have e: "process_command re_search (stub_env True) (command_patterns (stub_env True))
        ''Are You There?'' (stub_world True False)
       \<noteq> ask_question (stub_env True) ''Are You There?'' None ''claude'' (stub_world True False)"
  proof
    assume "process_command re_search (stub_env True) (command_patterns (stub_env True))
        ''Are You There?'' (stub_world True False)
       = ask_question (stub_env True) ''Are You There?'' None ''claude'' (stub_world True False)"
    then have "[''are you there?''] = [''Are You There?'']" using c d by simp
    then show False by simp
  qed
  show ?thesis by (intro conjI a b c d e)
qed

text \<open>
  C2. The empty input returns the fixed response before any rule is tried
  (\<open>process_command_empty\<close>). An input of white space only passes the guard, which stands
  before the trimming: the rules are tried against the empty string; with the rules of the
  constructor none matches and the answer is the other sentence, of \<open>ask_question\<close>; with a
  rule whose pattern matches the empty string its handler runs.
\<close>

theorem whitespace_only_command_reaches_the_rules:
  "process_command re_search (stub_env True) (command_patterns (stub_env True)) ''   ''
       (stub_world True False)
     = (Inr ''I didn't catch that, sir. Could you repeat your question?'', stub_world True False)
   \<and> process_command re_search (stub_env True)
       (add_custom_command (command_patterns (stub_env True)) any0
          (bound_method ''handle_open_application''
             (unary (handle_open_application (stub_env True)))))
       ''   '' (stub_world True False)
     = (Inr ''Opening '', (stub_world True False)\<lparr>sc_calls := [OpenApplication []]\<rparr>)"
proof -
  have a: "process_command re_search (stub_env True) (command_patterns (stub_env True)) ''   ''
       (stub_world True False)
     = (Inr ''I didn't catch that, sir. Could you repeat your question?'', stub_world True False)"
    by code_simp
  have b: "process_command re_search (stub_env True)
       (add_custom_command (command_patterns (stub_env True)) any0
          (bound_method ''handle_open_application''
             (unary (handle_open_application (stub_env True)))))
       ''   '' (stub_world True False)
     = (Inr ''Opening '', (stub_world True False)\<lparr>sc_calls := [OpenApplication []]\<rparr>)"
    by code_simp
  show ?thesis by (intro conjI a b)
qed

section \<open>The volume and folder handlers\<close>

text \<open>
  C5, amended. \<open>handle_set_volume\<close> removes every percent sign of the argument, wherever it
  stands, trims the rest and reads it with \<open>int\<close>. When that gives \<open>n\<close>, the collaborator's
  \<open>adjust_volume\<close> is called once, with \<open>n\<close> as it is, and the status it returns is the
  response; when it fails, the response is the validation error that quotes the argument
  and names the range 0 to 100, and the collaborator is not called.
\<close>

theorem handle_set_volume_parses_and_delegates:
  "(py_int (strip (filter (\<lambda>c. c \<noteq> CHR ''%'') level)) = Some n \<longrightarrow>
       sc_calls (snd (handle_set_volume e level w)) = sc_calls w @ [AdjustVolume n]
     \<and> (status_of (sc e) (sc_calls w) (AdjustVolume n) = Inr r \<longrightarrow>
          handle_set_volume e level w = (Inr r, w\<lparr>sc_calls := sc_calls w @ [AdjustVolume n]\<rparr>)))
   \<and> (py_int (strip (filter (\<lambda>c. c \<noteq> CHR ''%'') level)) = None \<longrightarrow>
       handle_set_volume e level w =
         (Inr (''Invalid volume level '' @ apostrophe @ level @ apostrophe
               @ '', sir. Please specify a number between 0 and 100.''), w))"
  by (simp add: handle_set_volume_def call_status_def invalid_volume_def Let_def
      split: sum.splits exn.splits)

theorem handle_set_volume_parses_and_delegates_witness:
  "py_int (strip (filter (\<lambda>c. c \<noteq> CHR ''%'') ''55%'')) = Some 55
   \<and> status_of (sc (stub_env True)) (sc_calls (stub_world False False)) (AdjustVolume 55)
       = Inr ''Volume set to 55%''
   \<and> handle_set_volume (stub_env True) ''55%'' (stub_world False False)
       = (Inr ''Volume set to 55%'',
          (stub_world False False)\<lparr>sc_calls := sc_calls (stub_world False False) @ [AdjustVolume 55]\<rparr>)
   \<and> py_int (strip (filter (\<lambda>c. c \<noteq> CHR ''%'') ''150'')) = Some 150
   \<and> sc_calls (snd (handle_set_volume (stub_env True) ''150'' (stub_world False False)))
       = sc_calls (stub_world False False) @ [AdjustVolume 150]
   \<and> py_int (strip (filter (\<lambda>c. c \<noteq> CHR ''%'') ''abc'')) = None
   \<and> handle_set_volume (stub_env True) ''abc'' (stub_world False False)
       = (Inr (''Invalid volume level '' @ apostrophe @ ''abc'' @ apostrophe
               @ '', sir. Please specify a number between 0 and 100.''), stub_world False False)"
proof -
  let ?e = "stub_env True"
  let ?w = "stub_world False False"
  have a: "py_int (strip (filter (\<lambda>c. c \<noteq> CHR ''%'') ''55%'')) = Some 55" by code_simp
  have b: "status_of (sc ?e) (sc_calls ?w) (AdjustVolume 55) = Inr ''Volume set to 55%''"
    by code_simp
  have c: "handle_set_volume ?e ''55%'' ?w
       = (Inr ''Volume set to 55%'', ?w\<lparr>sc_calls := sc_calls ?w @ [AdjustVolume 55]\<rparr>)"
    by (rule handle_set_volume_parses_and_delegates[where level = "''55%''" and n = 55
          and e = ?e and w = ?w and r = "''Volume set to 55%''",
          THEN conjunct1, THEN mp, OF a, THEN conjunct2, THEN mp, OF b])
  have d: "py_int (strip (filter (\<lambda>c. c \<noteq> CHR ''%'') ''150'')) = Some 150" by code_simp
  have f: "sc_calls (snd (handle_set_volume ?e ''150'' ?w)) = sc_calls ?w @ [AdjustVolume 150]"
    by (rule handle_set_volume_parses_and_delegates[where level = "''150''" and n = 150
          and e = ?e and w = ?w and r = "[]",
          THEN conjunct1, THEN mp, OF d, THEN conjunct1])
  have g: "py_int (strip (filter (\<lambda>c. c \<noteq> CHR ''%'') ''abc'')) = None" by code_simp
  have h: "handle_set_volume ?e ''abc'' ?w
       = (Inr (''Invalid volume level '' @ apostrophe @ ''abc'' @ apostrophe
               @ '', sir. Please specify a number between 0 and 100.''), ?w)"
    by (rule handle_set_volume_parses_and_delegates[where level = "''abc''" and n = 0
          and e = ?e and w = ?w and r = "[]", THEN conjunct2, THEN mp, OF g])
  show ?thesis by (intro conjI a b c d f g h)
qed

theorem handle_set_volume_counterexample:
  "py_int (spec_strip_trailing_percent ''5%5'') = None
   \<and> py_int (strip (filter (\<lambda>c. c \<noteq> CHR ''%'') ''5%5'')) = Some 55
   \<and> handle_set_volume (stub_env True) ''5%5'' (stub_world False False)
       = (Inr ''Volume set to 55%'', (stub_world False False)\<lparr>sc_calls := [AdjustVolume 55]\<rparr>)"
proof -
  have a: "py_int (spec_strip_trailing_percent ''5%5'') = None" by code_simp
  have b: "py_int (strip (filter (\<lambda>c. c \<noteq> CHR ''%'') ''5%5'')) = Some 55" by code_simp
  have c: "handle_set_volume (stub_env True) ''5%5'' (stub_world False False)
       = (Inr ''Volume set to 55%'', (stub_world False False)\<lparr>sc_calls := [AdjustVolume 55]\<rparr>)"
    by code_simp
  show ?thesis by (intro conjI a b c)
qed

lemma handle_create_folder_blank:
  "strip folder_name = [] \<Longrightarrow>
   handle_create_folder e folder_name w =
     (Inr (''Please specify a folder name, sir. For example: '' @ apostrophe
           @ ''create folder MyDocuments'' @ apostrophe), w)"
  by (simp add: handle_create_folder_def)

lemma handle_create_folder_not_blank:
  "strip folder_name \<noteq> [] \<Longrightarrow> handle_create_folder e folder_name w = (Inl (NameError ''os''), w)"
proof -
  assume a: "strip folder_name \<noteq> []"
  then have "folder_name \<noteq> []" by (auto simp: strip_def)
  moreover have "global_name ''os'' = Inl (NameError ''os'')"
    by (simp add: global_name_def module_globals_def)
  ultimately show ?thesis using a by (simp add: handle_create_folder_def)
qed

text \<open>
  C6. A blank folder name is answered with the prompt, without a call of the collaborator
  (\<open>handle_create_folder_blank\<close>). Any other name reaches \<open>os.path.join\<close>, and the module
  does not import \<open>os\<close>: the handler raises \<open>NameError\<close> before it calls the collaborator.
\<close>

theorem handle_create_folder_raises_NameError:
  "handle_create_folder e ''MyDocuments'' w = (Inl (NameError ''os''), w)"
proof -
  have "strip ''MyDocuments'' \<noteq> []" by code_simp
  then show ?thesis by (rule handle_create_folder_not_blank)
qed

section \<open>Faults of the backends\<close>

text \<open>
  C8. \<open>ask_claude\<close> and \<open>ask_openai\<close> always return a response and never raise; when the
  backend raises, the response is the fixed apology of the method and the state, the
  history with it, is unchanged; the history changes only when the backend has answered,
  and then by \<open>add_to_history\<close> of the question and the answer.
\<close>

theorem backend_fault_is_caught:
  "(\<exists>s. fst (ask_claude e question context w) = Inr s)
   \<and> (\<exists>s. fst (ask_openai e question context w) = Inr s)
   \<and> (claude_client w \<and> claude_create e (claude_prompt w question context) = Inl x \<longrightarrow>
        ask_claude e question context w
          = (Inr ''I'm having trouble connecting to my AI systems right now, sir.'', w))
   \<and> (openai_client w \<and> openai_create e (openai_messages w question context) = Inl x \<longrightarrow>
        ask_openai e question context w
          = (Inr ''I'm experiencing difficulties with my neural networks, sir.'', w))
   \<and> (conversation_history (snd (ask_claude e question context w)) \<noteq> conversation_history w \<longrightarrow>
        (\<exists>answer. claude_create e (claude_prompt w question context) = Inr answer
           \<and> ask_claude e question context w
               = (Inr answer, add_to_history (now_isoformat e) question answer w)))
   \<and> (conversation_history (snd (ask_openai e question context w)) \<noteq> conversation_history w \<longrightarrow>
        (\<exists>answer. openai_create e (openai_messages w question context) = Inr answer
           \<and> ask_openai e question context w
               = (Inr answer, add_to_history (now_isoformat e) question answer w)))"
proof (intro conjI)
  show "\<exists>s. fst (ask_claude e question context w) = Inr s" by (rule ask_claude_Inr)
  show "\<exists>s. fst (ask_openai e question context w) = Inr s" by (rule ask_openai_Inr)
  show "claude_client w \<and> claude_create e (claude_prompt w question context) = Inl x \<longrightarrow>
        ask_claude e question context w
          = (Inr ''I'm having trouble connecting to my AI systems right now, sir.'', w)"
    by (simp add: ask_claude_def ask_claude_try_def)
  show "openai_client w \<and> openai_create e (openai_messages w question context) = Inl x \<longrightarrow>
        ask_openai e question context w
          = (Inr ''I'm experiencing difficulties with my neural networks, sir.'', w)"
    by (simp add: ask_openai_def ask_openai_try_def)
  show "conversation_history (snd (ask_claude e question context w)) \<noteq> conversation_history w \<longrightarrow>
        (\<exists>answer. claude_create e (claude_prompt w question context) = Inr answer
           \<and> ask_claude e question context w
               = (Inr answer, add_to_history (now_isoformat e) question answer w))"
    by (cases "claude_create e (claude_prompt w question context)")
       (simp_all add: ask_claude_def ask_claude_try_def)
  show "conversation_history (snd (ask_openai e question context w)) \<noteq> conversation_history w \<longrightarrow>
        (\<exists>answer. openai_create e (openai_messages w question context) = Inr answer
           \<and> ask_openai e question context w
               = (Inr answer, add_to_history (now_isoformat e) question answer w))"
    by (cases "openai_create e (openai_messages w question context)")
       (simp_all add: ask_openai_def ask_openai_try_def)
qed

theorem backend_fault_is_caught_witness:
  "claude_client (stub_world True True)
   \<and> claude_create (stub_env True) (claude_prompt (stub_world True True) ''status report'' None)
       = Inl (Error ''connection'')
   \<and> ask_claude (stub_env True) ''status report'' None (stub_world True True)
       = (Inr ''I'm having trouble connecting to my AI systems right now, sir.'',
          stub_world True True)
   \<and> openai_client (stub_world True True)
   \<and> openai_create (stub_env True) (openai_messages (stub_world True True) ''status report'' None)
       = Inl (Error ''timeout'')
   \<and> ask_openai (stub_env True) ''status report'' None (stub_world True True)
       = (Inr ''I'm experiencing difficulties with my neural networks, sir.'',
          stub_world True True)
   \<and> conversation_history (snd (ask_claude (stub_env True) ''are you there?'' None
         (stub_world True True)))
       \<noteq> conversation_history (stub_world True True)
   \<and> ask_claude (stub_env True) ''are you there?'' None (stub_world True True)
       = (Inr ''Affirmative.'',
          add_to_history ''2024-01-01T09:30:00'' ''are you there?'' ''Affirmative.''
            (stub_world True True))"
proof -
  let ?e = "stub_env True"
  let ?w = "stub_world True True"
  have a: "claude_client ?w" by (simp add: stub_world_def)
  have b: "claude_create ?e (claude_prompt ?w ''status report'' None) = Inl (Error ''connection'')"
    by code_simp
  have c: "ask_claude ?e ''status report'' None ?w
       = (Inr ''I'm having trouble connecting to my AI systems right now, sir.'', ?w)"
    by (rule backend_fault_is_caught[of ?e "''status report''" None ?w "Error ''connection''",
          THEN conjunct2, THEN conjunct2, THEN conjunct1, THEN mp]) (intro conjI a b)
  have d: "openai_client ?w" by (simp add: stub_world_def)
  have f: "openai_create ?e (openai_messages ?w ''status report'' None) = Inl (Error ''timeout'')"
    by code_simp
  have g: "ask_openai ?e ''status report'' None ?w
       = (Inr ''I'm experiencing difficulties with my neural networks, sir.'', ?w)"
    by (rule backend_fault_is_caught[of ?e "''status report''" None ?w "Error ''timeout''",
          THEN conjunct2, THEN conjunct2, THEN conjunct2, THEN conjunct1, THEN mp])
       (intro conjI d f)
  have h: "conversation_history (snd (ask_claude ?e ''are you there?'' None ?w))
       \<noteq> conversation_history ?w"
    by code_simp
  have i: "claude_create ?e (claude_prompt ?w ''are you there?'' None) = Inr ''Affirmative.''"
    by code_simp
  have j: "now_isoformat ?e = ''2024-01-01T09:30:00''" by (simp add: stub_env_def)
  from backend_fault_is_caught[of ?e "''are you there?''" None ?w "Error ''connection''",
      THEN conjunct2, THEN conjunct2, THEN conjunct2, THEN conjunct2, THEN conjunct1, THEN mp,
      OF h]
  obtain answer where k: "claude_create ?e (claude_prompt ?w ''are you there?'' None) = Inr answer"
    and l: "ask_claude ?e ''are you there?'' None ?w
       = (Inr answer, add_to_history (now_isoformat ?e) ''are you there?'' answer ?w)"
    by (elim exE conjE)
  from k i have m: "answer = ''Affirmative.''" by simp
  have n: "ask_claude ?e ''are you there?'' None ?w
       = (Inr ''Affirmative.'',
          add_to_history ''2024-01-01T09:30:00'' ''are you there?'' ''Affirmative.'' ?w)"
    using l unfolding m j .
  show ?thesis by (intro conjI a b c d f g h n)
qed

end
